theory Spec2Isabelle
  imports Main
begin

section \<open>Overview\<close>

text \<open>
  A model of the backend of the tournament-registration service: the public routes
  \<^verbatim>\<open>POST /api/v1/contact\<close> and \<^verbatim>\<open>POST /api/v1/register\<close>, the administrator's login and
  routes under \<^verbatim>\<open>/api/v1/admin\<close>, the authentication middleware \<^verbatim>\<open>protect\<close>, and the three
  Mongoose models with their validators, hooks and unique indexes.

  A handler is a function from the store (the three collections) and the request to the
  response and the new store. Everything a handler takes from its surroundings is an
  argument: the clock \<open>now\<close> (milliseconds), the identifier \<open>oid\<close> the driver gives a new
  document, the environment \<open>E\<close>, and the library functions \<open>L\<close> whose code is not part of the
  service. A thrown error is a value of type \<open>thrown\<close>, and every \<^verbatim>\<open>catch\<close> of the source is
  a branch on it.

  The fields of a request are typed as the handlers use them (strings, a list of players,
  absent fields); the login password, which no sanitizer converts, is a JSON value. The
  rate limiters, the notification e-mails (sent after the write and
  never awaited) and the console output are left out: none of them changes the store or
  the answer of a handler.
\<close>

section \<open>Strings\<close>

text \<open>
  A JavaScript string is a \<^typ>\<open>string\<close>; one \<^typ>\<open>char\<close> stands for one code unit, so the
  lengths below are the lengths the validators count on ASCII input. A value that may be
  \<^verbatim>\<open>undefined\<close> or \<^verbatim>\<open>null\<close> is a \<^typ>\<open>string option\<close>.
\<close>

definition is_space :: "char \<Rightarrow> bool" where
  "is_space c = (c = CHR '' '' \<or> c = CHR 0x09 \<or> c = CHR 0x0A \<or> c = CHR 0x0B
     \<or> c = CHR 0x0C \<or> c = CHR 0x0D)"

definition trim :: "string \<Rightarrow> string" where
  "trim s = rev (dropWhile is_space (rev (dropWhile is_space s)))"

definition lower_char :: "char \<Rightarrow> char" where
  "lower_char c = (let n = (of_char c :: nat) in if 65 \<le> n \<and> n \<le> 90 then char_of (n + 32) else c)"

definition toLowerCase :: "string \<Rightarrow> string" where
  "toLowerCase s = map lower_char s"

definition startsWith :: "string \<Rightarrow> string \<Rightarrow> bool" where
  "startsWith s p = (take (length p) s = p)"

fun split_on :: "char \<Rightarrow> string \<Rightarrow> string list" where
  "split_on d [] = [[]]"
| "split_on d (c # cs) =
     (if c = d then [] # split_on d cs
      else (case split_on d cs of [] \<Rightarrow> [[c]] | w # ws \<Rightarrow> (c # w) # ws))"

definition nth_opt :: "'a list \<Rightarrow> nat \<Rightarrow> 'a option" where
  "nth_opt xs i = (if i < length xs then Some (xs ! i) else None)"

function show_nat :: "nat \<Rightarrow> string" where
  "show_nat n = (if n < 10 then [char_of (48 + n)] else show_nat (n div 10) @ [char_of (48 + n mod 10)])"
  by pat_completeness auto
termination
  by (relation "measure id") auto

declare show_nat.simps [simp del]

definition show_int :: "int \<Rightarrow> string" where
  "show_int i = (if i < 0 then CHR ''-'' # show_nat (nat (- i)) else show_nat (nat i))"

fun join :: "string \<Rightarrow> string list \<Rightarrow> string" where
  "join sep [] = []"
| "join sep [x] = x"
| "join sep (x # y # ys) = x @ sep @ join sep (y # ys)"

text \<open>The two non-ASCII characters of the source's messages, as their UTF-8 bytes.\<close>

definition en_dash :: string where
  "en_dash = [CHR 0xE2, CHR 0x80, CHR 0x93]"

definition rupee :: string where
  "rupee = [CHR 0xE2, CHR 0x82, CHR 0xB9]"

section \<open>Validation chains (express-validator)\<close>

text \<open>
  A chain \<^verbatim>\<open>body('f').trim().notEmpty().withMessage(m)...\<close> is a list of items run in order on
  the field's value converted to a string. A sanitizer replaces the value; a validator that
  fails adds its message and the chain goes on (no chain of the source calls
  \<^verbatim>\<open>bail()\<close>). The sanitized value is written back to the request body.
\<close>

datatype item = Sanitizer "string \<Rightarrow> string" | Validator "string \<Rightarrow> bool" string

fun run_chain :: "item list \<Rightarrow> string \<Rightarrow> string \<times> string list" where
  "run_chain [] v = (v, [])"
| "run_chain (Sanitizer f # rest) v = run_chain rest (f v)"
| "run_chain (Validator p msg # rest) v =
     (let (v', es) = run_chain rest v in (v', if p v then es else msg # es))"

definition toString :: "string option \<Rightarrow> string" where
  "toString v = (case v of None \<Rightarrow> [] | Some s \<Rightarrow> s)"

definition notEmpty :: "string \<Rightarrow> bool" where
  "notEmpty s = (s \<noteq> [])"

definition isIn :: "string list \<Rightarrow> string \<Rightarrow> bool" where
  "isIn vs s = (s \<in> set vs)"

definition isLength :: "nat \<Rightarrow> nat option \<Rightarrow> string \<Rightarrow> bool" where
  "isLength lo hi s = (lo \<le> length s \<and> (case hi of None \<Rightarrow> True | Some m \<Rightarrow> length s \<le> m))"

text \<open>\<^verbatim>\<open>optional({ nullable: true, checkFalsy: true })\<close>: the chain is skipped on a falsy value.\<close>

definition falsy :: "string option \<Rightarrow> bool" where
  "falsy v = (v = None \<or> v = Some [])"

section \<open>Data model\<close>

record player =
  inGameName :: "string option"
  inGameId :: "string option"
  phone :: "string option"
  email :: "string option"

text \<open>
  The JSON body of \<^verbatim>\<open>POST /api/v1/register\<close>. The handler reads five fields; \<open>other\<close>
  holds every other field the client sent (an \<^verbatim>\<open>entryFee\<close>, a \<^verbatim>\<open>status\<close>, ...), by name.
\<close>

datatype json = JNull | JBool bool | JNum int | JStr string

record reg_body =
  game :: "string option"
  mode :: "string option"
  teamName :: "string option"
  players :: "player list option"
  transactionId :: "string option"
  other :: "(string \<times> json) list"

text \<open>The documents of the three collections (the Mongoose schemas).\<close>

record registration =
  reg_id :: string
  reg_game :: string
  reg_mode :: string
  reg_teamName :: "string option"
  reg_players :: "player list"
  reg_transactionId :: string
  reg_entryFee :: "int option"
  reg_status :: string
  reg_createdAt :: nat
  reg_updatedAt :: nat

record contact =
  con_id :: string
  con_name :: string
  con_email :: string
  con_phone :: "string option"
  con_subject :: string
  con_message :: string
  con_status :: string
  con_createdAt :: nat
  con_updatedAt :: nat

record admin =
  adm_id :: string
  adm_email :: string
  adm_password :: string
  adm_name :: string
  adm_role :: string
  adm_lastLogin :: "nat option"
  adm_createdAt :: nat
  adm_updatedAt :: nat

record store =
  admins :: "admin list"
  contacts :: "contact list"
  registrations :: "registration list"

section \<open>Session tokens (jsonwebtoken)\<close>

text \<open>
  A token is modelled symbolically: the key it was signed with and the claims it carries.
  A string that is no token at all is \<open>Malformed\<close>. Times inside a token are in seconds.
\<close>

record claims =
  jwt_id :: string
  iat :: nat
  exp :: nat

datatype jwt = Malformed | Signed string claims

section \<open>Responses\<close>

record receipt =
  registrationId :: string
  rc_game :: string
  rc_mode :: string
  rc_teamName :: "string option"
  playerCount :: nat
  entryFee :: "int option"
  rc_status :: string

record admin_view =
  av_id :: string
  av_name :: string
  av_email :: string
  av_role :: string

record stats =
  contacts_total :: nat
  contacts_new :: nat
  registrations_total :: nat
  registrations_pending :: nat
  registrations_approved :: nat
  byGame_pubg :: nat
  byGame_freefire :: nat
  byGame_cod :: nat
  revenue :: int

record page_info =
  pg_page :: int
  pg_limit :: int
  pg_total :: nat
  pg_pages :: "int option"

datatype body_data =
  NoData
| Receipt receipt
| LoginData jwt admin_view
| MeData admin_view "nat option"
| StatsData stats
| ContactPage "contact list"
| RegistrationPage "registration list"
| ContactDoc contact
| RegistrationDoc registration

record response =
  status :: nat
  success :: bool
  message :: "string option"
  errors :: "string list option"
  data :: body_data
  pagination :: "page_info option"

definition failure :: "nat \<Rightarrow> string \<Rightarrow> response" where
  "failure code msg = \<lparr>status = code, success = False, message = Some msg, errors = None,
     data = NoData, pagination = None\<rparr>"

definition validation_failed :: "string list \<Rightarrow> response" where
  "validation_failed msgs = \<lparr>status = 400, success = False,
     message = Some ''Validation failed. Please check your input.'', errors = Some msgs,
     data = NoData, pagination = None\<rparr>"

section \<open>Registration: the Fee and Roster Policy\<close>

definition FEE_TABLE :: "string \<Rightarrow> int option" where
  "FEE_TABLE = map_of [(''solo'', 5), (''duo'', 10), (''squad'', 20)]"

definition PLAYER_COUNT :: "string \<Rightarrow> nat option" where
  "PLAYER_COUNT = map_of [(''solo'', 1), (''duo'', 2), (''squad'', 4)]"

section \<open>Registration: the validation rules of the route\<close>

definition game_rule :: "item list" where
  "game_rule = [Sanitizer trim, Validator notEmpty ''Game is required'',
     Validator (isIn [''pubg'', ''freefire'', ''cod'']) ''Invalid game selection'']"

definition mode_rule :: "item list" where
  "mode_rule = [Sanitizer trim, Validator notEmpty ''Mode is required'',
     Validator (isIn [''solo'', ''duo'', ''squad'']) ''Invalid mode selection'']"

definition teamName_rule :: "item list" where
  "teamName_rule = [Sanitizer trim,
     Validator (isLength 0 (Some 50)) ''Team name cannot exceed 50 characters'']"

definition players_msg :: string where
  "players_msg = ''Players array is required (1'' @ en_dash @ ''5 players)''"

definition isArray :: "nat \<Rightarrow> nat \<Rightarrow> 'a list option \<Rightarrow> bool" where
  "isArray lo hi v = (case v of None \<Rightarrow> False | Some xs \<Rightarrow> lo \<le> length xs \<and> length xs \<le> hi)"

definition inGameName_rule :: "item list" where
  "inGameName_rule = [Sanitizer trim,
     Validator notEmpty ''In-game name is required for all players'']"

definition inGameId_rule :: "item list" where
  "inGameId_rule = [Sanitizer trim,
     Validator notEmpty ''In-game ID is required for all players'']"

definition phone_rule :: "item list" where
  "phone_rule = [Sanitizer trim,
     Validator notEmpty ''Phone number is required for all players'']"

definition transactionId_rule :: "item list" where
  "transactionId_rule = [Sanitizer trim, Validator notEmpty ''Transaction ID is required'',
     Validator (isLength 5 None) ''Transaction ID must be at least 5 characters'']"

text \<open>The messages of each rule on a body, field by field.\<close>

definition game_errors :: "reg_body \<Rightarrow> string list" where
  "game_errors b = snd (run_chain game_rule (toString (game b)))"

definition mode_errors :: "reg_body \<Rightarrow> string list" where
  "mode_errors b = snd (run_chain mode_rule (toString (mode b)))"

definition teamName_errors :: "reg_body \<Rightarrow> string list" where
  "teamName_errors b =
     (if falsy (teamName b) then [] else snd (run_chain teamName_rule (toString (teamName b))))"

definition players_errors :: "reg_body \<Rightarrow> string list" where
  "players_errors b = (if isArray 1 5 (players b) then [] else [players_msg])"

text \<open>A wildcard rule \<^verbatim>\<open>players.*.f\<close> runs on every entry of the array, in order.\<close>

definition wildcard_errors :: "(player \<Rightarrow> string option) \<Rightarrow> item list \<Rightarrow> reg_body \<Rightarrow> string list" where
  "wildcard_errors f rule b =
     (case players b of None \<Rightarrow> []
      | Some ps \<Rightarrow> concat (map (\<lambda>p. snd (run_chain rule (toString (f p)))) ps))"

definition transactionId_errors :: "reg_body \<Rightarrow> string list" where
  "transactionId_errors b = snd (run_chain transactionId_rule (toString (transactionId b)))"

text \<open>\<^verbatim>\<open>validationResult(req).array().map(err => err.msg)\<close>: every rule's messages, in rule order.\<close>

definition registration_errors :: "reg_body \<Rightarrow> string list" where
  "registration_errors b =
     game_errors b @ mode_errors b @ teamName_errors b @ players_errors b
     @ wildcard_errors inGameName inGameName_rule b
     @ wildcard_errors inGameId inGameId_rule b
     @ wildcard_errors phone phone_rule b
     @ transactionId_errors b"

text \<open>The body after the sanitizers have written their values back.\<close>

definition sanitize_player :: "player \<Rightarrow> player" where
  "sanitize_player p = p\<lparr>
     inGameName := Some (fst (run_chain inGameName_rule (toString (inGameName p)))),
     inGameId := Some (fst (run_chain inGameId_rule (toString (inGameId p)))),
     phone := Some (fst (run_chain phone_rule (toString (phone p))))\<rparr>"

definition sanitize_registration :: "reg_body \<Rightarrow> reg_body" where
  "sanitize_registration b = b\<lparr>
     game := Some (fst (run_chain game_rule (toString (game b)))),
     mode := Some (fst (run_chain mode_rule (toString (mode b)))),
     teamName := (if falsy (teamName b) then teamName b
                  else Some (fst (run_chain teamName_rule (toString (teamName b))))),
     players := map_option (map sanitize_player) (players b),
     transactionId := Some (fst (run_chain transactionId_rule (toString (transactionId b))))\<rparr>"

section \<open>Registration: the entity and its persistence (Mongoose)\<close>

text \<open>
  What a failed library call throws, by the name the handlers test. A validation error
  carries the model's name and one message per failing path; a server error carries the
  server's code.
\<close>

datatype thrown =
  ValidationError string "(string \<times> string) list"
| Error string
| MongoServerError nat string
| CastError string
| JsonWebTokenError string
| TokenExpiredError string

definition error_name :: "thrown \<Rightarrow> string" where
  "error_name e =
     (case e of
        ValidationError _ _ \<Rightarrow> ''ValidationError''
      | Error _ \<Rightarrow> ''Error''
      | MongoServerError _ _ \<Rightarrow> ''MongoServerError''
      | CastError _ \<Rightarrow> ''CastError''
      | JsonWebTokenError _ \<Rightarrow> ''JsonWebTokenError''
      | TokenExpiredError _ \<Rightarrow> ''TokenExpiredError'')"

definition error_code :: "thrown \<Rightarrow> nat option" where
  "error_code e = (case e of MongoServerError c _ \<Rightarrow> Some c | _ \<Rightarrow> None)"

definition error_message :: "thrown \<Rightarrow> string" where
  "error_message e =
     (case e of
        ValidationError model errs \<Rightarrow>
          model @ '' validation failed: '' @ join '', '' (map (\<lambda>(p, m). p @ '': '' @ m) errs)
      | Error m \<Rightarrow> m
      | MongoServerError _ m \<Rightarrow> m
      | CastError m \<Rightarrow> m
      | JsonWebTokenError m \<Rightarrow> m
      | TokenExpiredError m \<Rightarrow> m)"

text \<open>Casting a roster entry to the player sub-schema: the \<^verbatim>\<open>trim\<close> and \<^verbatim>\<open>lowercase\<close> setters.\<close>

definition cast_player :: "player \<Rightarrow> player" where
  "cast_player p = \<lparr>inGameName = map_option trim (inGameName p),
     inGameId = map_option trim (inGameId p),
     phone = map_option trim (phone p),
     email = map_option (\<lambda>e. toLowerCase (trim e)) (email p)\<rparr>"

text \<open>The schema's validators, one message at most per path, \<^verbatim>\<open>required\<close> first.\<close>

definition required_errors :: "string \<Rightarrow> string \<Rightarrow> string option \<Rightarrow> (string \<times> string) list" where
  "required_errors path msg v = (if falsy v then [(path, msg)] else [])"

definition maxlength_errors :: "string \<Rightarrow> nat \<Rightarrow> string \<Rightarrow> string option \<Rightarrow> (string \<times> string) list" where
  "maxlength_errors path n msg v =
     (case v of None \<Rightarrow> [] | Some x \<Rightarrow> if length x > n then [(path, msg)] else [])"

definition player_validate :: "nat \<Rightarrow> player \<Rightarrow> (string \<times> string) list" where
  "player_validate i p =
     (let pre = ''players.'' @ show_nat i @ ''.'' in
      (if falsy (inGameName p) then [(pre @ ''inGameName'', ''In-game name is required'')]
       else maxlength_errors (pre @ ''inGameName'') 50 ''In-game name cannot exceed 50 characters''
              (inGameName p))
      @ (if falsy (inGameId p) then [(pre @ ''inGameId'', ''In-game ID is required'')]
         else maxlength_errors (pre @ ''inGameId'') 30 ''In-game ID cannot exceed 30 characters''
                (inGameId p))
      @ required_errors (pre @ ''phone'') ''Phone number is required'' (phone p))"

definition registration_validate :: "registration \<Rightarrow> (string \<times> string) list" where
  "registration_validate d =
     (if reg_game d = [] then [(''game'', ''Game is required'')]
      else if reg_game d \<notin> set [''pubg'', ''freefire'', ''cod'']
        then [(''game'', ''Game must be one of: pubg, freefire, cod'')] else [])
     @ (if reg_mode d = [] then [(''mode'', ''Mode is required'')]
        else if reg_mode d \<notin> set [''solo'', ''duo'', ''squad'']
          then [(''mode'', ''Mode must be one of: solo, duo, squad'')] else [])
     @ maxlength_errors ''teamName'' 50 ''Team name cannot exceed 50 characters'' (reg_teamName d)
     @ (if length (reg_players d) \<ge> 1 \<and> length (reg_players d) \<le> 5 then []
        else [(''players'', ''Players array must have 1'' @ en_dash @ ''5 entries'')])
     @ concat (map (\<lambda>(i, p). player_validate i p) (enumerate 0 (reg_players d)))
     @ (if reg_transactionId d = [] then [(''transactionId'', ''Transaction ID is required'')] else [])
     @ (case reg_entryFee d of None \<Rightarrow> [(''entryFee'', ''Entry fee is required'')]
        | Some f \<Rightarrow> if f < 5 then [(''entryFee'', ''Entry fee must be at least '' @ rupee @ ''5'')]
                    else [])
     @ (if reg_status d \<in> set [''pending'', ''approved'', ''rejected''] then []
        else [(''status'', [CHR 0x60] @ reg_status d @ [CHR 0x60]
                @ '' is not a valid enum value for path '' @ [CHR 0x60] @ ''status'' @ [CHR 0x60] @ ''.'')])"

text \<open>\<^verbatim>\<open>registrationSchema.pre('save', ...)\<close>: the hook throws, or returns.\<close>

definition expectedPlayers :: "string \<Rightarrow> nat option" where
  "expectedPlayers = map_of [(''solo'', 1), (''duo'', 2), (''squad'', 4)]"

definition registration_pre_save :: "registration \<Rightarrow> thrown + unit" where
  "registration_pre_save d =
     (let expected = expectedPlayers (reg_mode d) in
      if (case expected of None \<Rightarrow> False | Some e \<Rightarrow> length (reg_players d) < e)
      then Inl (Error (reg_mode d @ '' mode requires at least ''
                  @ (case expected of None \<Rightarrow> ''undefined'' | Some e \<Rightarrow> show_nat e) @ '' player(s)''))
      else if (reg_mode d = ''duo'' \<or> reg_mode d = ''squad'') \<and> falsy (reg_teamName d)
      then Inl (Error ''Team name is required for duo/squad mode'')
      else Inr ())"

text \<open>
  \<^verbatim>\<open>doc.save()\<close> of a new document: validation, then the pre-save hook, then the insert, which
  the unique indexes (\<^verbatim>\<open>_id\<close> and \<^verbatim>\<open>transactionId\<close>) can refuse with code 11000.
\<close>

definition duplicate_key :: "store \<Rightarrow> registration \<Rightarrow> bool" where
  "duplicate_key s d = list_ex (\<lambda>r. reg_id r = reg_id d \<or> reg_transactionId r = reg_transactionId d)
     (registrations s)"

definition registration_save :: "nat \<Rightarrow> store \<Rightarrow> registration \<Rightarrow> thrown + (registration \<times> store)" where
  "registration_save now s d =
     (if registration_validate d \<noteq> [] then Inl (ValidationError ''Registration'' (registration_validate d))
      else case registration_pre_save d of
        Inl e \<Rightarrow> Inl e
      | Inr _ \<Rightarrow>
          if duplicate_key s d then Inl (MongoServerError 11000 ''E11000 duplicate key error'')
          else let saved = d\<lparr>reg_createdAt := now, reg_updatedAt := now\<rparr>
               in Inr (saved, s\<lparr>registrations := registrations s @ [saved]\<rparr>))"

section \<open>Registration: the route handler\<close>

definition or_null :: "string option \<Rightarrow> string option" where
  "or_null v = (if falsy v then None else v)"

definition findOne_transactionId :: "store \<Rightarrow> string \<Rightarrow> registration option" where
  "findOne_transactionId s t = find (\<lambda>r. reg_transactionId r = t) (registrations s)"

text \<open>
  The handler up to the write: validation, the fee, the duplicate lookup (which reads the
  store), the roster and team-name checks. It answers, or hands on the sanitized body.
\<close>

definition register_check :: "store \<Rightarrow> reg_body \<Rightarrow> response + reg_body" where
  "register_check s body =
     (if registration_errors body \<noteq> [] then Inl (validation_failed (registration_errors body))
      else
        let b = sanitize_registration body in
        case findOne_transactionId s (toString (transactionId b)) of
          Some _ \<Rightarrow> Inl (failure 409
            ''This transaction ID has already been used. Each registration requires a unique payment.'')
        | None \<Rightarrow>
            let expectedPlayers = PLAYER_COUNT (toString (mode b));
                n = length (case players b of None \<Rightarrow> [] | Some ps \<Rightarrow> ps) in
            if (case expectedPlayers of None \<Rightarrow> False | Some e \<Rightarrow> n < e)
            then Inl (failure 400 (toString (mode b) @ '' mode requires at least ''
                   @ (case expectedPlayers of None \<Rightarrow> ''undefined'' | Some e \<Rightarrow> show_nat e)
                   @ '' player(s). You provided '' @ show_nat n @ ''.''))
            else if (toString (mode b) = ''duo'' \<or> toString (mode b) = ''squad'') \<and> falsy (teamName b)
            then Inl (failure 400 ''Team name is required for duo and squad modes.'')
            else Inr b)"

text \<open>\<^verbatim>\<open>new Registration({...})\<close>, with the client-independent \<^verbatim>\<open>entryFee\<close> and \<^verbatim>\<open>status\<close>.\<close>

definition new_Registration :: "string \<Rightarrow> reg_body \<Rightarrow> registration" where
  "new_Registration oid b = \<lparr>reg_id = oid,
     reg_game = toString (game b),
     reg_mode = toString (mode b),
     reg_teamName = map_option trim (or_null (teamName b)),
     reg_players = map cast_player (case players b of None \<Rightarrow> [] | Some ps \<Rightarrow> ps),
     reg_transactionId = trim (toString (transactionId b)),
     reg_entryFee = FEE_TABLE (toString (mode b)),
     reg_status = ''pending'',
     reg_createdAt = 0, reg_updatedAt = 0\<rparr>"

text \<open>The answer to an accepted registration, from the handler's variables.\<close>

definition registered :: "registration \<Rightarrow> reg_body \<Rightarrow> response" where
  "registered saved b = \<lparr>status = 201, success = True,
     message = Some ''Registration successful! You will receive match details via WhatsApp/call before the tournament.'',
     errors = None,
     data = Receipt \<lparr>registrationId = reg_id saved,
       rc_game = toString (game b), rc_mode = toString (mode b),
       rc_teamName = or_null (teamName b),
       playerCount = length (case players b of None \<Rightarrow> [] | Some ps \<Rightarrow> ps),
       entryFee = FEE_TABLE (toString (mode b)),
       rc_status = ''pending''\<rparr>,
     pagination = None\<rparr>"

text \<open>The write and the answer, with the \<^verbatim>\<open>catch\<close> that turns code 11000 into 409.\<close>

definition register_commit :: "nat \<Rightarrow> string \<Rightarrow> store \<Rightarrow> reg_body \<Rightarrow> response \<times> store" where
  "register_commit now oid s b =
     (case registration_save now s (new_Registration oid b) of
        Inr (saved, s') \<Rightarrow> (registered saved b, s')
      | Inl e \<Rightarrow>
          if error_code e = Some 11000
          then (failure 409 ''This transaction ID has already been used for another registration.'', s)
          else (failure 500 (''Registration failed: ''
                  @ (if error_message e = [] then ''Unknown error'' else error_message e)), s))"

text \<open>
  The handler awaits the store twice. \<open>register_race\<close> lets the lookup see one store and the
  write land on another (requests served in between); \<open>register\<close> is the handler run
  alone.
\<close>

definition register_race :: "nat \<Rightarrow> string \<Rightarrow> store \<Rightarrow> store \<Rightarrow> reg_body \<Rightarrow> response \<times> store" where
  "register_race now oid s_lookup s_write body =
     (case register_check s_lookup body of
        Inl r \<Rightarrow> (r, s_write)
      | Inr b \<Rightarrow> register_commit now oid s_write b)"

definition register :: "nat \<Rightarrow> string \<Rightarrow> store \<Rightarrow> reg_body \<Rightarrow> response \<times> store" where
  "register now oid s body = register_race now oid s s body"

section \<open>Library functions taken as parameters\<close>

text \<open>
  Four functions of the libraries the routes call are left open: validator.js's e-mail
  test and normaliser, bcrypt's comparison of a password string with a stored hash (what
  \<^verbatim>\<open>bcrypt.compare\<close> does with a value that is not a string is in \<open>comparePassword\<close>
  below), and the reading of a compact token string.
\<close>

record library =
  isEmail :: "string \<Rightarrow> bool"
  normalizeEmail :: "string \<Rightarrow> string"
  bcrypt_compare :: "string \<Rightarrow> string \<Rightarrow> bool"
  jwt_decode :: "string \<Rightarrow> jwt"

record env =
  JWT_SECRET :: "string option"

section \<open>Contact: the route and the entity\<close>

record contact_body =
  cb_name :: "string option"
  cb_email :: "string option"
  cb_phone :: "string option"
  cb_subject :: "string option"
  cb_message :: "string option"

definition subjects :: "string list" where
  "subjects = [''tournament'', ''registration'', ''payment'', ''report'', ''partnership'',
     ''feedback'', ''other'']"

definition name_rule :: "item list" where
  "name_rule = [Sanitizer trim, Validator notEmpty ''Name is required'',
     Validator (isLength 2 (Some 100)) (''Name must be 2'' @ en_dash @ ''100 characters'')]"

definition email_rule :: "library \<Rightarrow> item list" where
  "email_rule L = [Sanitizer trim, Validator notEmpty ''Email is required'',
     Validator (isEmail L) ''Invalid email format'', Sanitizer (normalizeEmail L)]"

definition contact_phone_rule :: "item list" where
  "contact_phone_rule = [Sanitizer trim]"

definition subject_rule :: "item list" where
  "subject_rule = [Sanitizer trim, Validator notEmpty ''Subject is required'',
     Validator (isIn subjects) ''Invalid subject category'']"

definition message_rule :: "item list" where
  "message_rule = [Sanitizer trim, Validator notEmpty ''Message is required'',
     Validator (isLength 10 (Some 2000)) (''Message must be 10'' @ en_dash @ ''2000 characters'')]"

definition name_errors :: "contact_body \<Rightarrow> string list" where
  "name_errors b = snd (run_chain name_rule (toString (cb_name b)))"

definition email_errors :: "library \<Rightarrow> contact_body \<Rightarrow> string list" where
  "email_errors L b = snd (run_chain (email_rule L) (toString (cb_email b)))"

definition contact_phone_errors :: "contact_body \<Rightarrow> string list" where
  "contact_phone_errors b =
     (if falsy (cb_phone b) then [] else snd (run_chain contact_phone_rule (toString (cb_phone b))))"

definition subject_errors :: "contact_body \<Rightarrow> string list" where
  "subject_errors b = snd (run_chain subject_rule (toString (cb_subject b)))"

definition message_errors :: "contact_body \<Rightarrow> string list" where
  "message_errors b = snd (run_chain message_rule (toString (cb_message b)))"

definition contact_errors :: "library \<Rightarrow> contact_body \<Rightarrow> string list" where
  "contact_errors L b =
     name_errors b @ email_errors L b @ contact_phone_errors b @ subject_errors b @ message_errors b"

definition sanitize_contact :: "library \<Rightarrow> contact_body \<Rightarrow> contact_body" where
  "sanitize_contact L b = \<lparr>
     cb_name = Some (fst (run_chain name_rule (toString (cb_name b)))),
     cb_email = Some (fst (run_chain (email_rule L) (toString (cb_email b)))),
     cb_phone = (if falsy (cb_phone b) then cb_phone b
                 else Some (fst (run_chain contact_phone_rule (toString (cb_phone b))))),
     cb_subject = Some (fst (run_chain subject_rule (toString (cb_subject b)))),
     cb_message = Some (fst (run_chain message_rule (toString (cb_message b))))\<rparr>"

definition new_Contact :: "string \<Rightarrow> contact_body \<Rightarrow> contact" where
  "new_Contact oid b = \<lparr>con_id = oid,
     con_name = trim (toString (cb_name b)),
     con_email = toLowerCase (trim (toString (cb_email b))),
     con_phone = map_option trim (or_null (cb_phone b)),
     con_subject = toString (cb_subject b),
     con_message = trim (toString (cb_message b)),
     con_status = ''new'',
     con_createdAt = 0, con_updatedAt = 0\<rparr>"

text \<open>The schema's pattern for an address, \<^verbatim>\<open>/^\S+@\S+\.\S+$/\<close>.\<close>

definition email_pattern :: "string \<Rightarrow> bool" where
  "email_pattern e =
     (\<not> list_ex is_space e \<and>
      list_ex (\<lambda>i. e ! i = CHR ''@'' \<and> list_ex (\<lambda>j. e ! j = CHR ''.'') [i + 2 ..< length e - 1])
        [1 ..< length e])"

definition contact_validate :: "contact \<Rightarrow> (string \<times> string) list" where
  "contact_validate d =
     (if con_name d = [] then [(''name'', ''Name is required'')]
      else if length (con_name d) < 2 then [(''name'', ''Name must be at least 2 characters'')]
      else if length (con_name d) > 100 then [(''name'', ''Name cannot exceed 100 characters'')]
      else [])
     @ (if con_email d = [] then [(''email'', ''Email is required'')]
        else if \<not> email_pattern (con_email d) then [(''email'', ''Please provide a valid email'')]
        else [])
     @ (if con_subject d = [] then [(''subject'', ''Subject is required'')]
        else if con_subject d \<notin> set subjects
          then [(''subject'', ''Subject must be one of: tournament, registration, payment, report, partnership, feedback, other'')]
        else [])
     @ (if con_message d = [] then [(''message'', ''Message is required'')]
        else if length (con_message d) < 10 then [(''message'', ''Message must be at least 10 characters'')]
        else if length (con_message d) > 2000 then [(''message'', ''Message cannot exceed 2000 characters'')]
        else [])
     @ (if con_status d \<in> set [''new'', ''read'', ''replied''] then []
        else [(''status'', [CHR 0x60] @ con_status d @ [CHR 0x60]
                @ '' is not a valid enum value for path '' @ [CHR 0x60] @ ''status'' @ [CHR 0x60] @ ''.'')])"

definition contact_save :: "nat \<Rightarrow> store \<Rightarrow> contact \<Rightarrow> thrown + (contact \<times> store)" where
  "contact_save now s d =
     (if contact_validate d \<noteq> [] then Inl (ValidationError ''Contact'' (contact_validate d))
      else if list_ex (\<lambda>c. con_id c = con_id d) (contacts s)
        then Inl (MongoServerError 11000 ''E11000 duplicate key error'')
      else let saved = d\<lparr>con_createdAt := now, con_updatedAt := now\<rparr>
           in Inr (saved, s\<lparr>contacts := contacts s @ [saved]\<rparr>))"

definition submit_contact :: "library \<Rightarrow> nat \<Rightarrow> string \<Rightarrow> store \<Rightarrow> contact_body \<Rightarrow> response \<times> store" where
  "submit_contact L now oid s body =
     (if contact_errors L body \<noteq> [] then (validation_failed (contact_errors L body), s)
      else
        case contact_save now s (new_Contact oid (sanitize_contact L body)) of
          Inr (saved, s') \<Rightarrow>
            (\<lparr>status = 201, success = True,
              message = Some ''Your message has been sent successfully! We will get back to you soon.'',
              errors = None, data = NoData, pagination = None\<rparr>, s')
        | Inl e \<Rightarrow> (failure 500 ''Failed to send message. Please try again later.'', s))"

section \<open>Token service\<close>

text \<open>
  \<^verbatim>\<open>jwt.sign(payload, secret, { expiresIn })\<close> stamps the token with the clock in seconds
  and the expiry after it; \<^verbatim>\<open>jwt.verify\<close> throws on a token that is no token, that another key
  signed, or whose expiry the clock has reached. The clock \<open>now\<close> is in milliseconds.
\<close>

definition seven_days :: nat where
  "seven_days = 7 * 24 * 60 * 60"

definition jwt_sign :: "string \<Rightarrow> string option \<Rightarrow> nat \<Rightarrow> nat \<Rightarrow> thrown + jwt" where
  "jwt_sign aid secret expiresIn now =
     (if falsy secret then Inl (Error ''secretOrPrivateKey must have a value'')
      else Inr (Signed (toString secret)
             \<lparr>jwt_id = aid, iat = now div 1000, exp = now div 1000 + expiresIn\<rparr>))"

definition jwt_verify :: "jwt \<Rightarrow> string option \<Rightarrow> nat \<Rightarrow> thrown + claims" where
  "jwt_verify t secret now =
     (case t of
        Malformed \<Rightarrow> Inl (JsonWebTokenError ''jwt malformed'')
      | Signed k c \<Rightarrow>
          if falsy secret then Inl (JsonWebTokenError ''secret or public key must be provided'')
          else if k \<noteq> toString secret then Inl (JsonWebTokenError ''invalid signature'')
          else if now div 1000 \<ge> exp c then Inl (TokenExpiredError ''jwt expired'')
          else Inr c)"

definition generateToken :: "env \<Rightarrow> nat \<Rightarrow> string \<Rightarrow> thrown + jwt" where
  "generateToken E now adminId = jwt_sign adminId (JWT_SECRET E) seven_days now"

section \<open>Login\<close>

text \<open>
  The body of \<^verbatim>\<open>POST /api/v1/admin/login\<close>. The e-mail chain starts with \<^verbatim>\<open>trim()\<close>, which
  writes a string back to the body. The password chain is \<^verbatim>\<open>notEmpty()\<close> alone: it has no
  sanitizer, so \<^verbatim>\<open>req.body.password\<close> keeps the JSON value the client sent (\<open>None\<close>: the
  field is absent).
\<close>

record login_body =
  lb_email :: "string option"
  lb_password :: "json option"

text \<open>JavaScript's \<^verbatim>\<open>typeof\<close>, and the string a validator is run on (express-validator's \<^verbatim>\<open>toString\<close>).\<close>

definition typeof :: "json option \<Rightarrow> string" where
  "typeof v = (case v of None \<Rightarrow> ''undefined'' | Some JNull \<Rightarrow> ''object''
     | Some (JBool b) \<Rightarrow> ''boolean'' | Some (JNum n) \<Rightarrow> ''number'' | Some (JStr x) \<Rightarrow> ''string'')"

definition json_toString :: "json option \<Rightarrow> string" where
  "json_toString v = (case v of None \<Rightarrow> [] | Some JNull \<Rightarrow> []
     | Some (JBool b) \<Rightarrow> (if b then ''true'' else ''false'')
     | Some (JNum n) \<Rightarrow> show_int n | Some (JStr x) \<Rightarrow> x)"

definition login_email_rule :: "library \<Rightarrow> item list" where
  "login_email_rule L = [Sanitizer trim, Validator notEmpty ''Email is required'',
     Validator (isEmail L) ''Invalid email'']"

definition login_password_rule :: "item list" where
  "login_password_rule = [Validator notEmpty ''Password is required'']"

definition login_errors :: "library \<Rightarrow> login_body \<Rightarrow> string list" where
  "login_errors L b =
     snd (run_chain (login_email_rule L) (toString (lb_email b)))
     @ snd (run_chain login_password_rule (json_toString (lb_password b)))"

text \<open>\<^verbatim>\<open>Admin.findOne({ email })\<close>; the query value passes the schema's setters.\<close>

definition Admin_findOne :: "store \<Rightarrow> string \<Rightarrow> admin option" where
  "Admin_findOne s e = find (\<lambda>a. adm_email a = toLowerCase (trim e)) (admins s)"

fun update_first :: "('a \<Rightarrow> bool) \<Rightarrow> ('a \<Rightarrow> 'a) \<Rightarrow> 'a list \<Rightarrow> 'a list" where
  "update_first P f [] = []"
| "update_first P f (x # xs) = (if P x then f x # xs else x # update_first P f xs)"

fun remove_first :: "('a \<Rightarrow> bool) \<Rightarrow> 'a list \<Rightarrow> 'a list" where
  "remove_first P [] = []"
| "remove_first P (x # xs) = (if P x then xs else x # remove_first P xs)"

definition invalid_credentials :: response where
  "invalid_credentials = failure 401 ''Invalid email or password.''"

definition admin_info :: "admin \<Rightarrow> admin_view" where
  "admin_info a = \<lparr>av_id = adm_id a, av_name = adm_name a, av_email = adm_email a,
     av_role = adm_role a\<rparr>"

definition ok :: "body_data \<Rightarrow> response" where
  "ok d = \<lparr>status = 200, success = True, message = None, errors = None, data = d,
     pagination = None\<rparr>"

definition login_successful :: "jwt \<Rightarrow> admin \<Rightarrow> response" where
  "login_successful token a = (ok (LoginData token (admin_info a)))\<lparr>message := Some ''Login successful''\<rparr>"

text \<open>\<^verbatim>\<open>admin.lastLogin = new Date(); await admin.save()\<close>.\<close>

definition save_lastLogin :: "nat \<Rightarrow> admin \<Rightarrow> store \<Rightarrow> store" where
  "save_lastLogin now a s = s\<lparr>admins := update_first (\<lambda>x. adm_id x = adm_id a)
     (\<lambda>x. x\<lparr>adm_lastLogin := Some now, adm_updatedAt := now\<rparr>) (admins s)\<rparr>"

text \<open>
  \<^verbatim>\<open>admin.comparePassword(candidate)\<close> is \<^verbatim>\<open>bcrypt.compare(candidate, this.password)\<close>. bcryptjs
  rejects with \<^verbatim>\<open>Error("Illegal arguments: " + typeof s + ", " + typeof hash)\<close> unless both
  arguments are strings; the stored hash is one.
\<close>

definition comparePassword :: "library \<Rightarrow> admin \<Rightarrow> json option \<Rightarrow> thrown + bool" where
  "comparePassword L a candidate =
     (case candidate of
        Some (JStr p) \<Rightarrow> Inr (bcrypt_compare L p (adm_password a))
      | _ \<Rightarrow> Inl (Error (''Illegal arguments: '' @ typeof candidate @ '', string'')))"

definition login_failed :: response where
  "login_failed = failure 500 ''Login failed. Please try again.''"

definition login_email :: "library \<Rightarrow> login_body \<Rightarrow> string" where
  "login_email L body = fst (run_chain (login_email_rule L) (toString (lb_email body)))"

definition login :: "library \<Rightarrow> env \<Rightarrow> nat \<Rightarrow> store \<Rightarrow> login_body \<Rightarrow> response \<times> store" where
  "login L E now s body =
     (if login_errors L body \<noteq> [] then (failure 400 (hd (login_errors L body)), s)
      else
        (case Admin_findOne s (login_email L body) of
           None \<Rightarrow> (invalid_credentials, s)
         | Some a \<Rightarrow>
             (case comparePassword L a (lb_password body) of
                Inl e \<Rightarrow> (login_failed, s)
              | Inr isMatch \<Rightarrow>
                  (if \<not> isMatch then (invalid_credentials, s)
                   else
                     (case generateToken E now (adm_id a) of
                        Inl e \<Rightarrow> (login_failed, save_lastLogin now a s)
                      | Inr token \<Rightarrow> (login_successful token a, save_lastLogin now a s))))))"

section \<open>The authentication middleware\<close>

definition is_hex :: "char \<Rightarrow> bool" where
  "is_hex c = (let n = (of_char c :: nat) in
     (48 \<le> n \<and> n \<le> 57) \<or> (65 \<le> n \<and> n \<le> 70) \<or> (97 \<le> n \<and> n \<le> 102))"

text \<open>Casting a string to an \<^verbatim>\<open>ObjectId\<close>: 24 hexadecimal digits, or a \<^verbatim>\<open>CastError\<close>.\<close>

definition castObjectId :: "string \<Rightarrow> thrown + string" where
  "castObjectId x = (if length x = 24 \<and> list_all is_hex x then Inr x
     else Inl (CastError ''Cast to ObjectId failed''))"

definition Admin_findById :: "store \<Rightarrow> string \<Rightarrow> thrown + admin option" where
  "Admin_findById s x =
     (case castObjectId x of Inl e \<Rightarrow> Inl e | Inr oid \<Rightarrow> Inr (find (\<lambda>a. adm_id a = oid) (admins s)))"

definition bearer_token :: "string option \<Rightarrow> string option" where
  "bearer_token authorization =
     (case authorization of
        None \<Rightarrow> None
      | Some a \<Rightarrow> if a \<noteq> [] \<and> startsWith a ''Bearer'' then nth_opt (split_on CHR '' '' a) 1 else None)"

definition protect_catch :: "thrown \<Rightarrow> response" where
  "protect_catch e =
     (if error_name e = ''JsonWebTokenError'' then failure 401 ''Invalid token. Please login again.''
      else if error_name e = ''TokenExpiredError'' then failure 401 ''Token expired. Please login again.''
      else failure 500 ''Authentication failed.'')"

text \<open>\<open>protect\<close> answers itself (\<open>Inl\<close>), or calls \<^verbatim>\<open>next()\<close> with the administrator (\<open>Inr\<close>).\<close>

definition protect :: "library \<Rightarrow> env \<Rightarrow> nat \<Rightarrow> store \<Rightarrow> string option \<Rightarrow> response + admin" where
  "protect L E now s authorization =
     (let token = bearer_token authorization in
      if falsy token then Inl (failure 401 ''Not authorized. Please login.'')
      else
        case jwt_verify (jwt_decode L (toString token)) (JWT_SECRET E) now of
          Inl e \<Rightarrow> Inl (protect_catch e)
        | Inr decoded \<Rightarrow>
            (case Admin_findById s (jwt_id decoded) of
               Inl e \<Rightarrow> Inl (protect_catch e)
             | Inr None \<Rightarrow> Inl (failure 401 ''Admin account not found.'')
             | Inr (Some a) \<Rightarrow> Inr a))"

section \<open>The administrator's routes\<close>

record contact_query =
  cq_status :: "string option"
  cq_page :: "int option"
  cq_limit :: "int option"

record registration_query =
  rq_game :: "string option"
  rq_mode :: "string option"
  rq_status :: "string option"
  rq_page :: "int option"
  rq_limit :: "int option"

text \<open>
  \<^verbatim>\<open>page\<close> and \<^verbatim>\<open>limit\<close> are the integers \<^verbatim>\<open>parseInt\<close> reads from the query string, 1 and 20
  when absent. The database refuses a negative \<^verbatim>\<open>skip\<close>; a \<^verbatim>\<open>limit\<close> of 0 is no limit.
\<close>

definition paginate :: "int \<Rightarrow> int \<Rightarrow> 'a list \<Rightarrow> thrown + 'a list" where
  "paginate skip limit xs =
     (if skip < 0 then Inl (MongoServerError 2 ''skip value must be non-negative'')
      else Inr (let ys = drop (nat skip) xs in if limit = 0 then ys else take (nat \<bar>limit\<bar>) ys))"

definition page_count :: "nat \<Rightarrow> int \<Rightarrow> int option" where
  "page_count n limit = (if limit = 0 then None else Some (- ((- int n) div limit)))"

definition newest_first :: "('a \<Rightarrow> nat) \<Rightarrow> 'a list \<Rightarrow> 'a list" where
  "newest_first createdAt xs = rev (sort_key createdAt xs)"

definition filter_by :: "string option \<Rightarrow> string list \<Rightarrow> ('a \<Rightarrow> string) \<Rightarrow> 'a \<Rightarrow> bool" where
  "filter_by v allowed field x = (if \<not> falsy v \<and> toString v \<in> set allowed then field x = toString v else True)"

definition get_me :: "admin \<Rightarrow> response" where
  "get_me a = ok (MeData (admin_info a) (adm_lastLogin a))"

definition countDocuments :: "('a \<Rightarrow> bool) \<Rightarrow> 'a list \<Rightarrow> nat" where
  "countDocuments P xs = length (filter P xs)"

definition totalRevenue :: "registration list \<Rightarrow> int" where
  "totalRevenue rs =
     foldl (\<lambda>sum r. sum + (case reg_entryFee r of None \<Rightarrow> 0 | Some f \<Rightarrow> if f = 0 then 0 else f)) 0
       (filter (\<lambda>r. reg_status r = ''approved'') rs)"

definition get_stats :: "store \<Rightarrow> response" where
  "get_stats s = ok (StatsData \<lparr>
     contacts_total = countDocuments (\<lambda>c. True) (contacts s),
     contacts_new = countDocuments (\<lambda>c. con_status c = ''new'') (contacts s),
     registrations_total = countDocuments (\<lambda>r. True) (registrations s),
     registrations_pending = countDocuments (\<lambda>r. reg_status r = ''pending'') (registrations s),
     registrations_approved = countDocuments (\<lambda>r. reg_status r = ''approved'') (registrations s),
     byGame_pubg = countDocuments (\<lambda>r. reg_game r = ''pubg'') (registrations s),
     byGame_freefire = countDocuments (\<lambda>r. reg_game r = ''freefire'') (registrations s),
     byGame_cod = countDocuments (\<lambda>r. reg_game r = ''cod'') (registrations s),
     revenue = totalRevenue (registrations s)\<rparr>)"

definition page_of :: "int option \<Rightarrow> int" where
  "page_of p = (case p of None \<Rightarrow> 1 | Some n \<Rightarrow> n)"

definition limit_of :: "int option \<Rightarrow> int" where
  "limit_of l = (case l of None \<Rightarrow> 20 | Some n \<Rightarrow> n)"

definition list_contacts :: "store \<Rightarrow> contact_query \<Rightarrow> response" where
  "list_contacts s q =
     (let page = page_of (cq_page q); limit = limit_of (cq_limit q);
          skip = (page - 1) * limit;
          found = filter (filter_by (cq_status q) [''new'', ''read'', ''replied''] con_status) (contacts s) in
      case paginate skip limit (newest_first con_createdAt found) of
        Inl e \<Rightarrow> failure 500 ''Failed to load contacts.''
      | Inr docs \<Rightarrow> (ok (ContactPage docs))\<lparr>pagination := Some \<lparr>pg_page = page, pg_limit = limit,
                       pg_total = length found, pg_pages = page_count (length found) limit\<rparr>\<rparr>)"

definition list_registrations :: "store \<Rightarrow> registration_query \<Rightarrow> response" where
  "list_registrations s q =
     (let page = page_of (rq_page q); limit = limit_of (rq_limit q);
          skip = (page - 1) * limit;
          found = filter (\<lambda>r. filter_by (rq_game q) [''pubg'', ''freefire'', ''cod''] reg_game r
                    \<and> filter_by (rq_mode q) [''solo'', ''duo'', ''squad''] reg_mode r
                    \<and> filter_by (rq_status q) [''pending'', ''approved'', ''rejected''] reg_status r)
                    (registrations s) in
      case paginate skip limit (newest_first reg_createdAt found) of
        Inl e \<Rightarrow> failure 500 ''Failed to load registrations.''
      | Inr docs \<Rightarrow> (ok (RegistrationPage docs))\<lparr>pagination := Some \<lparr>pg_page = page, pg_limit = limit,
                       pg_total = length found, pg_pages = page_count (length found) limit\<rparr>\<rparr>)"

text \<open>\<^verbatim>\<open>findByIdAndUpdate(id, { status }, ...)\<close> writes the status of one document and nothing else.\<close>

definition patch_contact :: "nat \<Rightarrow> store \<Rightarrow> string \<Rightarrow> string option \<Rightarrow> response \<times> store" where
  "patch_contact now s ident st =
     (if falsy st \<or> toString st \<notin> set [''new'', ''read'', ''replied'']
      then (failure 400 ''Status must be: new, read, or replied'', s)
      else case castObjectId ident of
        Inl e \<Rightarrow> (failure 500 ''Failed to update contact.'', s)
      | Inr oid \<Rightarrow>
          (case find (\<lambda>c. con_id c = oid) (contacts s) of
             None \<Rightarrow> (failure 404 ''Contact not found.'', s)
           | Some c \<Rightarrow>
               (ok (ContactDoc (c\<lparr>con_status := toString st, con_updatedAt := now\<rparr>)),
                s\<lparr>contacts := update_first (\<lambda>c. con_id c = oid)
                     (\<lambda>c. c\<lparr>con_status := toString st, con_updatedAt := now\<rparr>) (contacts s)\<rparr>)))"

definition delete_contact :: "store \<Rightarrow> string \<Rightarrow> response \<times> store" where
  "delete_contact s ident =
     (case castObjectId ident of
        Inl e \<Rightarrow> (failure 500 ''Failed to delete contact.'', s)
      | Inr oid \<Rightarrow>
          (case find (\<lambda>c. con_id c = oid) (contacts s) of
             None \<Rightarrow> (failure 404 ''Contact not found.'', s)
           | Some c \<Rightarrow>
               ((ok NoData)\<lparr>message := Some ''Contact deleted.''\<rparr>,
                s\<lparr>contacts := remove_first (\<lambda>c. con_id c = oid) (contacts s)\<rparr>)))"

definition patch_registration :: "nat \<Rightarrow> store \<Rightarrow> string \<Rightarrow> string option \<Rightarrow> response \<times> store" where
  "patch_registration now s ident st =
     (if falsy st \<or> toString st \<notin> set [''pending'', ''approved'', ''rejected'']
      then (failure 400 ''Status must be: pending, approved, or rejected'', s)
      else case castObjectId ident of
        Inl e \<Rightarrow> (failure 500 ''Failed to update registration.'', s)
      | Inr oid \<Rightarrow>
          (case find (\<lambda>r. reg_id r = oid) (registrations s) of
             None \<Rightarrow> (failure 404 ''Registration not found.'', s)
           | Some r \<Rightarrow>
               (ok (RegistrationDoc (r\<lparr>reg_status := toString st, reg_updatedAt := now\<rparr>)),
                s\<lparr>registrations := update_first (\<lambda>r. reg_id r = oid)
                     (\<lambda>r. r\<lparr>reg_status := toString st, reg_updatedAt := now\<rparr>) (registrations s)\<rparr>)))"

text \<open>
  Every route of the administrator but the login is mounted behind \<open>protect\<close>: the handler
  runs only when \<open>protect\<close> calls \<^verbatim>\<open>next()\<close>.
\<close>

datatype admin_op =
  GetMe
| GetStats
| ListContacts contact_query
| PatchContact string "string option"
| DeleteContact string
| ListRegistrations registration_query
| PatchRegistration string "string option"

definition admin_handler :: "nat \<Rightarrow> store \<Rightarrow> admin \<Rightarrow> admin_op \<Rightarrow> response \<times> store" where
  "admin_handler now s a op =
     (case op of
        GetMe \<Rightarrow> (get_me a, s)
      | GetStats \<Rightarrow> (get_stats s, s)
      | ListContacts q \<Rightarrow> (list_contacts s q, s)
      | PatchContact ident st \<Rightarrow> patch_contact now s ident st
      | DeleteContact ident \<Rightarrow> delete_contact s ident
      | ListRegistrations q \<Rightarrow> (list_registrations s q, s)
      | PatchRegistration ident st \<Rightarrow> patch_registration now s ident st)"

definition admin_route :: "library \<Rightarrow> env \<Rightarrow> nat \<Rightarrow> store \<Rightarrow> string option \<Rightarrow> admin_op \<Rightarrow> response \<times> store" where
  "admin_route L E now s authorization op =
     (case protect L E now s authorization of
        Inl r \<Rightarrow> (r, s)
      | Inr a \<Rightarrow> admin_handler now s a op)"

section \<open>The service as a whole\<close>

text \<open>
  One request changes the store as its handler does. A registration's duplicate lookup may
  have read an older store than the one its write lands on.
\<close>

inductive reachable :: "library \<Rightarrow> env \<Rightarrow> store \<Rightarrow> store \<Rightarrow> bool" for L E s0 where
  start: "reachable L E s0 s0"
| contact: "reachable L E s0 s \<Longrightarrow> reachable L E s0 (snd (submit_contact L now oid s body))"
| registration: "reachable L E s0 s \<Longrightarrow> reachable L E s0 (snd (register_race now oid s_old s rbody))"
| logged_in: "reachable L E s0 s \<Longrightarrow> reachable L E s0 (snd (login L E now s lbody))"
| administered: "reachable L E s0 s \<Longrightarrow> reachable L E s0 (snd (admin_route L E now s authorization op))"

section \<open>The roster property\<close>

text \<open>
  What the pre-save hook asks of a registration: enough players for its mode and, for a duo
  or a squad, a team name that is neither \<^verbatim>\<open>null\<close> nor empty.
\<close>

definition roster_complete :: "registration \<Rightarrow> bool" where
  "roster_complete r =
     ((reg_mode r = ''solo'' \<and> 1 \<le> length (reg_players r)
       \<or> reg_mode r = ''duo'' \<and> 2 \<le> length (reg_players r)
       \<or> reg_mode r = ''squad'' \<and> 4 \<le> length (reg_players r))
      \<and> (reg_mode r = ''duo'' \<or> reg_mode r = ''squad'' \<longrightarrow> \<not> falsy (reg_teamName r)))"

section \<open>Example requests\<close>

definition empty_store :: store where
  "empty_store = \<lparr>admins = [], contacts = [], registrations = []\<rparr>"

definition player_A :: player where
  "player_A = \<lparr>inGameName = Some ''A'', inGameId = Some ''1'', phone = Some ''9876543210'',
     email = None\<rparr>"

definition player_B :: player where
  "player_B = \<lparr>inGameName = Some ''B'', inGameId = Some ''2'', phone = Some ''9876543211'',
     email = None\<rparr>"

definition player_C :: player where
  "player_C = \<lparr>inGameName = Some ''C'', inGameId = Some ''3'', phone = Some ''9876543212'',
     email = Some ''c@example.com''\<rparr>"

text \<open>The registration of the specification's end-to-end example, with a fee the client made up.\<close>

definition duo_body :: reg_body where
  "duo_body = \<lparr>game = Some ''pubg'', mode = Some ''duo'', teamName = Some ''Alpha'',
     players = Some [player_A, player_B], transactionId = Some ''UPI000111222'',
     other = [(''entryFee'', JNum 0)]\<rparr>"

definition solo_body :: reg_body where
  "solo_body = \<lparr>game = Some ''freefire'', mode = Some '' solo'', teamName = None,
     players = Some [player_A, player_B, player_C], transactionId = Some ''UPI000333444'',
     other = []\<rparr>"

text \<open>A solo registration with no player, paid with the transaction of \<open>duo_body\<close>.\<close>

definition empty_roster_body :: reg_body where
  "empty_roster_body = \<lparr>game = Some ''pubg'', mode = Some ''solo'', teamName = None,
     players = Some [], transactionId = Some ''UPI000111222'', other = []\<rparr>"

text \<open>A duo registration with one player and no team name, paid with the same transaction.\<close>

definition short_duo_body :: reg_body where
  "short_duo_body = \<lparr>game = Some ''pubg'', mode = Some ''duo'', teamName = None,
     players = Some [player_A], transactionId = Some ''UPI000111222'', other = []\<rparr>"

text \<open>A registration with three faults: the game, a player's name, the transaction.\<close>

definition faulty_body :: reg_body where
  "faulty_body = \<lparr>game = Some ''chess'', mode = Some ''solo'', teamName = None,
     players = Some [player_A\<lparr>inGameName := Some ''  ''\<rparr>], transactionId = Some ''UPI'',
     other = []\<rparr>"

definition faulty_contact :: contact_body where
  "faulty_contact = \<lparr>cb_name = Some ''J'', cb_email = Some ''john'', cb_phone = None,
     cb_subject = Some ''tournament'', cb_message = Some ''When is the next PUBG tournament?''\<rparr>"

definition oid1 :: string where
  "oid1 = ''65a000000000000000000001''"

definition oid2 :: string where
  "oid2 = ''65a000000000000000000002''"

definition taken_store :: store where
  "taken_store = snd (register 1000 oid1 empty_store duo_body)"

definition example_env :: env where
  "example_env = \<lparr>JWT_SECRET = Some ''s3cret''\<rparr>"

definition example_token :: jwt where
  "example_token = Signed ''s3cret'' \<lparr>jwt_id = oid1, iat = 1700000000, exp = 1700604800\<rparr>"

definition example_library :: library where
  "example_library = \<lparr>isEmail = (\<lambda>e. CHR ''@'' \<in> set e), normalizeEmail = toLowerCase,
     bcrypt_compare = (\<lambda>password hash. hash = ''hashed:'' @ password),
     jwt_decode = (\<lambda>w. if w = ''header.payload.signature'' then example_token else Malformed)\<rparr>"

definition example_admin :: admin where
  "example_admin = \<lparr>adm_id = oid1, adm_email = ''admin@gullyesports.in'',
     adm_password = ''hashed:correct horse'', adm_name = ''Admin'', adm_role = ''admin'',
     adm_lastLogin = None, adm_createdAt = 0, adm_updatedAt = 0\<rparr>"

definition approved_registration :: registration where
  "approved_registration = \<lparr>reg_id = oid1, reg_game = ''pubg'', reg_mode = ''duo'',
     reg_teamName = Some ''Alpha'', reg_players = [player_A, player_B],
     reg_transactionId = ''UPI000111222'', reg_entryFee = Some 10, reg_status = ''approved'',
     reg_createdAt = 1000, reg_updatedAt = 2000\<rparr>"

definition pending_registration :: registration where
  "pending_registration = \<lparr>reg_id = oid2, reg_game = ''cod'', reg_mode = ''squad'',
     reg_teamName = Some ''Bravo'', reg_players = [player_A, player_B, player_C, player_A],
     reg_transactionId = ''UPI000555666'', reg_entryFee = Some 20, reg_status = ''pending'',
     reg_createdAt = 3000, reg_updatedAt = 3000\<rparr>"

definition admin_store :: store where
  "admin_store = \<lparr>admins = [example_admin], contacts = [],
     registrations = [approved_registration, pending_registration]\<rparr>"

definition unknown_login :: login_body where
  "unknown_login = \<lparr>lb_email = Some ''nobody@gullyesports.in'', lb_password = Some (JStr ''correct horse'')\<rparr>"

definition wrong_password_login :: login_body where
  "wrong_password_login = \<lparr>lb_email = Some ''Admin@GullyEsports.in '', lb_password = Some (JStr ''battery staple'')\<rparr>"

text \<open>\<^verbatim>\<open>{"email": ..., "password": 123}\<close>, for the administrator's address and for an unknown one.\<close>

definition number_login :: login_body where
  "number_login = \<lparr>lb_email = Some ''admin@gullyesports.in'', lb_password = Some (JNum 123)\<rparr>"

definition number_login_unknown :: login_body where
  "number_login_unknown = \<lparr>lb_email = Some ''nobody@gullyesports.in'', lb_password = Some (JNum 123)\<rparr>"

section \<open>Lemmas: strings\<close>

lemma trim_ends: "trim s = [] \<or> (\<not> is_space (hd (trim s)) \<and> \<not> is_space (last (trim s)))"
proof (cases "trim s = []")
  case True
  then show ?thesis by simp
next
  case False
  define u where "u = dropWhile is_space s"
  define v where "v = dropWhile is_space (rev u)"
  have t: "trim s = rev v" by (simp add: trim_def u_def v_def)
  with False have v: "v \<noteq> []" by simp
  then have "\<not> is_space (hd v)" unfolding v_def by (rule hd_dropWhile)
  then have l: "\<not> is_space (last (trim s))" using v by (simp add: t last_rev)
  have "rev u = takeWhile is_space (rev u) @ v" by (simp add: v_def)
  then have "u = rev v @ rev (takeWhile is_space (rev u))"
    by (metis rev_append rev_rev_ident)
  then have "hd u = hd (rev v)" using v by (metis hd_append2 rev_is_Nil_conv)
  moreover have "u \<noteq> []" using v by (auto simp: v_def)
  then have "\<not> is_space (hd u)" unfolding u_def by (rule hd_dropWhile)
  ultimately show ?thesis using l by (simp add: t)
qed

lemma trim_fixed: "s = [] \<or> (\<not> is_space (hd s) \<and> \<not> is_space (last s)) \<Longrightarrow> trim s = s"
proof (cases "s = []")
  case True
  then show ?thesis by (simp add: trim_def)
next
  case False
  assume "s = [] \<or> (\<not> is_space (hd s) \<and> \<not> is_space (last s))"
  with False have h: "\<not> is_space (hd s)" and l: "\<not> is_space (last s)" by simp_all
  from False h have "dropWhile is_space s = s" by (simp add: dropWhile_eq_self_iff)
  moreover from False l have "dropWhile is_space (rev s) = rev s"
    by (simp add: dropWhile_eq_self_iff hd_rev)
  ultimately show ?thesis by (simp add: trim_def)
qed

lemma trim_idem [simp]: "trim (trim s) = trim s"
  by (rule trim_fixed) (rule trim_ends)

lemma trim_Nil [simp]: "trim [] = []"
  by (simp add: trim_def)

lemma toString_simps [simp]: "toString None = []" "toString (Some x) = x"
  by (simp_all add: toString_def)

lemma falsy_simps [simp]: "falsy None" "falsy (Some x) \<longleftrightarrow> x = []"
  by (simp_all add: falsy_def)

section \<open>Lemmas: the rules\<close>

lemma run_chain_game: "run_chain game_rule v =
   (trim v, (if trim v \<noteq> [] then [] else [''Game is required''])
            @ (if trim v \<in> set [''pubg'', ''freefire'', ''cod''] then [] else [''Invalid game selection'']))"
  by (simp add: game_rule_def notEmpty_def isIn_def)

lemma run_chain_mode: "run_chain mode_rule v =
   (trim v, (if trim v \<noteq> [] then [] else [''Mode is required''])
            @ (if trim v \<in> set [''solo'', ''duo'', ''squad''] then [] else [''Invalid mode selection'']))"
  by (simp add: mode_rule_def notEmpty_def isIn_def)

lemma run_chain_teamName: "run_chain teamName_rule v =
   (trim v, if length (trim v) \<le> 50 then [] else [''Team name cannot exceed 50 characters''])"
  by (simp add: teamName_rule_def isLength_def)

lemma run_chain_inGameName: "run_chain inGameName_rule v =
   (trim v, if trim v \<noteq> [] then [] else [''In-game name is required for all players''])"
  by (simp add: inGameName_rule_def notEmpty_def)

lemma run_chain_inGameId: "run_chain inGameId_rule v =
   (trim v, if trim v \<noteq> [] then [] else [''In-game ID is required for all players''])"
  by (simp add: inGameId_rule_def notEmpty_def)

lemma run_chain_phone: "run_chain phone_rule v =
   (trim v, if trim v \<noteq> [] then [] else [''Phone number is required for all players''])"
  by (simp add: phone_rule_def notEmpty_def)

lemma run_chain_transactionId: "run_chain transactionId_rule v =
   (trim v, (if trim v \<noteq> [] then [] else [''Transaction ID is required''])
            @ (if 5 \<le> length (trim v) then [] else [''Transaction ID must be at least 5 characters'']))"
  by (simp add: transactionId_rule_def notEmpty_def isLength_def)

lemmas run_chain_registration = run_chain_game run_chain_mode run_chain_teamName
  run_chain_inGameName run_chain_inGameId run_chain_phone run_chain_transactionId

lemma game_errors_Nil: "game_errors b = [] \<longleftrightarrow> trim (toString (game b)) \<in> set [''pubg'', ''freefire'', ''cod'']"
  by (auto simp: game_errors_def run_chain_game)

lemma mode_errors_Nil: "mode_errors b = [] \<longleftrightarrow> trim (toString (mode b)) \<in> set [''solo'', ''duo'', ''squad'']"
  by (auto simp: mode_errors_def run_chain_mode)

lemma teamName_errors_Nil: "teamName_errors b = [] \<longleftrightarrow> length (trim (toString (teamName b))) \<le> 50"
  by (cases "teamName b") (auto simp: teamName_errors_def run_chain_teamName)

lemma players_errors_Nil: "players_errors b = [] \<longleftrightarrow> (\<exists>ps. players b = Some ps \<and> 1 \<le> length ps \<and> length ps \<le> 5)"
  by (auto simp: players_errors_def isArray_def split: option.splits)

lemma transactionId_errors_Nil: "transactionId_errors b = [] \<longleftrightarrow> 5 \<le> length (trim (toString (transactionId b)))"
  by (auto simp: transactionId_errors_def run_chain_transactionId)

lemma wildcard_errors_Nil:
  "wildcard_errors f rule b = [] \<longleftrightarrow>
     (\<forall>ps. players b = Some ps \<longrightarrow> (\<forall>p \<in> set ps. snd (run_chain rule (toString (f p))) = []))"
  by (auto simp: wildcard_errors_def split: option.splits)

lemma registration_errors_Nil:
  "registration_errors b = [] \<longleftrightarrow>
     trim (toString (game b)) \<in> set [''pubg'', ''freefire'', ''cod'']
     \<and> trim (toString (mode b)) \<in> set [''solo'', ''duo'', ''squad'']
     \<and> length (trim (toString (teamName b))) \<le> 50
     \<and> (\<exists>ps. players b = Some ps \<and> 1 \<le> length ps \<and> length ps \<le> 5
           \<and> (\<forall>p \<in> set ps. trim (toString (inGameName p)) \<noteq> []
                 \<and> trim (toString (inGameId p)) \<noteq> [] \<and> trim (toString (phone p)) \<noteq> []))
     \<and> 5 \<le> length (trim (toString (transactionId b)))"
  unfolding registration_errors_def append_is_Nil_conv game_errors_Nil mode_errors_Nil
    teamName_errors_Nil players_errors_Nil transactionId_errors_Nil wildcard_errors_Nil
  by (auto simp: run_chain_registration)

section \<open>Lemmas: the registration handler\<close>

lemma sanitized_fields:
  "toString (game (sanitize_registration b)) = trim (toString (game b))"
  "toString (mode (sanitize_registration b)) = trim (toString (mode b))"
  "toString (transactionId (sanitize_registration b)) = trim (toString (transactionId b))"
  "players (sanitize_registration b) = map_option (map sanitize_player) (players b)"
  "teamName (sanitize_registration b) =
     (if falsy (teamName b) then teamName b else Some (trim (toString (teamName b))))"
  by (simp_all add: sanitize_registration_def run_chain_registration)

lemma sanitized_roster_length:
  "length (case players (sanitize_registration b) of None \<Rightarrow> [] | Some ps \<Rightarrow> ps)
     = length (case players b of None \<Rightarrow> [] | Some ps \<Rightarrow> ps)"
  by (cases "players b") (simp_all add: sanitized_fields)

lemma or_null_sanitized:
  "map_option trim (or_null (teamName (sanitize_registration b))) = or_null (teamName (sanitize_registration b))"
  by (cases "teamName b") (auto simp: sanitized_fields or_null_def)

lemma findOne_transactionId_None:
  "findOne_transactionId s t = None \<longleftrightarrow> \<not> list_ex (\<lambda>r. reg_transactionId r = t) (registrations s)"
  by (auto simp: findOne_transactionId_def find_None_iff list_ex_iff)

lemma register_check_eq:
  "register_check s body =
     (if registration_errors body \<noteq> [] then Inl (validation_failed (registration_errors body))
      else if list_ex (\<lambda>r. reg_transactionId r = trim (toString (transactionId body))) (registrations s)
      then Inl (failure 409
        ''This transaction ID has already been used. Each registration requires a unique payment.'')
      else if (case PLAYER_COUNT (trim (toString (mode body))) of None \<Rightarrow> False
               | Some e \<Rightarrow> length (case players body of None \<Rightarrow> [] | Some ps \<Rightarrow> ps) < e)
      then Inl (failure 400 (trim (toString (mode body)) @ '' mode requires at least ''
             @ (case PLAYER_COUNT (trim (toString (mode body))) of None \<Rightarrow> ''undefined'' | Some e \<Rightarrow> show_nat e)
             @ '' player(s). You provided ''
             @ show_nat (length (case players body of None \<Rightarrow> [] | Some ps \<Rightarrow> ps)) @ ''.''))
      else if (trim (toString (mode body)) = ''duo'' \<or> trim (toString (mode body)) = ''squad'')
              \<and> falsy (teamName (sanitize_registration body))
      then Inl (failure 400 ''Team name is required for duo and squad modes.'')
      else Inr (sanitize_registration body))"
proof (cases "findOne_transactionId s (trim (toString (transactionId body)))")
  case None
  then have "\<not> list_ex (\<lambda>r. reg_transactionId r = trim (toString (transactionId body))) (registrations s)"
    by (simp add: findOne_transactionId_None)
  with None show ?thesis
    unfolding register_check_def Let_def sanitized_fields(1-3) sanitized_roster_length
    by simp
next
  case (Some r)
  then have "list_ex (\<lambda>r. reg_transactionId r = trim (toString (transactionId body))) (registrations s)"
    using findOne_transactionId_None[of s "trim (toString (transactionId body))"] by simp
  with Some show ?thesis
    unfolding register_check_def Let_def sanitized_fields(1-3) sanitized_roster_length
    by simp
qed

lemma register_check_invalid:
  "registration_errors body \<noteq> [] \<Longrightarrow>
     register_check s body = Inl (validation_failed (registration_errors body))"
  by (simp add: register_check_eq)

lemma register_check_duplicate:
  assumes "registration_errors body = []"
    and "list_ex (\<lambda>r. reg_transactionId r = trim (toString (transactionId body))) (registrations s)"
  shows "register_check s body = Inl (failure 409
    ''This transaction ID has already been used. Each registration requires a unique payment.'')"
  using assms by (simp add: register_check_eq)

lemma register_check_Inr:
  assumes "register_check s body = Inr b"
  shows "b = sanitize_registration body" and "registration_errors body = []"
    and "\<not> list_ex (\<lambda>r. reg_transactionId r = trim (toString (transactionId body))) (registrations s)"
    and "\<exists>e. PLAYER_COUNT (trim (toString (mode body))) = Some e
            \<and> e \<le> length (case players body of None \<Rightarrow> [] | Some ps \<Rightarrow> ps)"
    and "trim (toString (mode body)) = ''duo'' \<or> trim (toString (mode body)) = ''squad''
           \<Longrightarrow> \<not> falsy (teamName b)"
proof -
  have c: "registration_errors body = []
    \<and> \<not> list_ex (\<lambda>r. reg_transactionId r = trim (toString (transactionId body))) (registrations s)
    \<and> \<not> (case PLAYER_COUNT (trim (toString (mode body))) of None \<Rightarrow> False
               | Some e \<Rightarrow> length (case players body of None \<Rightarrow> [] | Some ps \<Rightarrow> ps) < e)
    \<and> \<not> ((trim (toString (mode body)) = ''duo'' \<or> trim (toString (mode body)) = ''squad'')
              \<and> falsy (teamName (sanitize_registration body)))
    \<and> b = sanitize_registration body"
    using assms unfolding register_check_eq by (simp split: if_splits)
  then show "b = sanitize_registration body" and ok: "registration_errors body = []"
    and "\<not> list_ex (\<lambda>r. reg_transactionId r = trim (toString (transactionId body))) (registrations s)"
    by simp_all
  from ok have "trim (toString (mode body)) \<in> set [''solo'', ''duo'', ''squad'']"
    by (simp add: registration_errors_Nil)
  then obtain e where e: "PLAYER_COUNT (trim (toString (mode body))) = Some e"
    by (auto simp: PLAYER_COUNT_def)
  with c show "\<exists>e. PLAYER_COUNT (trim (toString (mode body))) = Some e
            \<and> e \<le> length (case players body of None \<Rightarrow> [] | Some ps \<Rightarrow> ps)"
    by simp
  show "\<not> falsy (teamName b)"
    if "trim (toString (mode body)) = ''duo'' \<or> trim (toString (mode body)) = ''squad''"
    using c that by blast
qed

lemma new_Registration_fields:
  "reg_id (new_Registration oid (sanitize_registration b)) = oid"
  "reg_mode (new_Registration oid (sanitize_registration b)) = trim (toString (mode b))"
  "reg_game (new_Registration oid (sanitize_registration b)) = trim (toString (game b))"
  "reg_transactionId (new_Registration oid (sanitize_registration b)) = trim (toString (transactionId b))"
  "reg_entryFee (new_Registration oid (sanitize_registration b)) = FEE_TABLE (trim (toString (mode b)))"
  "reg_status (new_Registration oid (sanitize_registration b)) = ''pending''"
  "reg_teamName (new_Registration oid (sanitize_registration b)) = or_null (teamName (sanitize_registration b))"
  "reg_players (new_Registration oid (sanitize_registration b)) =
     map (\<lambda>p. cast_player (sanitize_player p)) (case players b of None \<Rightarrow> [] | Some ps \<Rightarrow> ps)"
  by (simp_all add: new_Registration_def sanitized_fields(1-4) or_null_sanitized split: option.split)

lemma expectedPlayers_eq: "expectedPlayers = PLAYER_COUNT"
  by (simp add: expectedPlayers_def PLAYER_COUNT_def)

text \<open>A body that passed the route's roster and team-name checks passes the hook's.\<close>

lemma check_implies_hook:
  assumes "register_check s body = Inr b"
  shows "registration_pre_save (new_Registration oid b) = Inr ()"
proof -
  note c = register_check_Inr[OF assms]
  from c(4) obtain e where e: "PLAYER_COUNT (trim (toString (mode body))) = Some e"
    "e \<le> length (case players body of None \<Rightarrow> [] | Some ps \<Rightarrow> ps)" by blast
  have t: "\<not> falsy (or_null (teamName (sanitize_registration body)))"
    if "trim (toString (mode body)) = ''duo'' \<or> trim (toString (mode body)) = ''squad''"
    using c(5)[OF that] by (simp add: c(1) or_null_def)
  have 1: "\<not> (case PLAYER_COUNT (trim (toString (mode body))) of None \<Rightarrow> False
        | Some e \<Rightarrow> length (map (\<lambda>p. cast_player (sanitize_player p))
                      (case players body of None \<Rightarrow> [] | Some ps \<Rightarrow> ps)) < e)"
    using e by simp
  have 2: "\<not> ((trim (toString (mode body)) = ''duo'' \<or> trim (toString (mode body)) = ''squad'')
       \<and> falsy (or_null (teamName (sanitize_registration body))))"
    using t by blast
  show ?thesis
    unfolding c(1) registration_pre_save_def new_Registration_fields Let_def expectedPlayers_eq
    using 1 2 by (simp only: if_False)
qed

lemma registration_pre_save_Inl: "registration_pre_save d = Inl e \<Longrightarrow> error_code e = None"
  by (auto simp: registration_pre_save_def Let_def error_code_def split: if_splits)

lemma registration_pre_save_projl:
  "registration_pre_save d \<noteq> Inr () \<Longrightarrow> registration_pre_save d = Inl (projl (registration_pre_save d))"
  by (cases "registration_pre_save d") simp_all

lemma registration_save_cases:
  "registration_save now s d =
     (if registration_validate d \<noteq> [] then Inl (ValidationError ''Registration'' (registration_validate d))
      else if registration_pre_save d \<noteq> Inr () then Inl (projl (registration_pre_save d))
      else if duplicate_key s d then Inl (MongoServerError 11000 ''E11000 duplicate key error'')
      else Inr (d\<lparr>reg_createdAt := now, reg_updatedAt := now\<rparr>,
             s\<lparr>registrations := registrations s @ [d\<lparr>reg_createdAt := now, reg_updatedAt := now\<rparr>]\<rparr>))"
  by (cases "registration_pre_save d") (auto simp: registration_save_def Let_def)

lemma registration_save_Inr:
  "registration_save now s d = Inr (d', s') \<Longrightarrow>
     d' = d\<lparr>reg_createdAt := now, reg_updatedAt := now\<rparr> \<and> s' = s\<lparr>registrations := registrations s @ [d']\<rparr>
     \<and> registration_validate d = [] \<and> registration_pre_save d = Inr () \<and> \<not> duplicate_key s d"
  by (auto simp: registration_save_cases split: if_splits)

lemma status_simps [simp]:
  "status (failure c m) = c" "status (validation_failed es) = 400" "status (registered d b) = 201"
  "errors (validation_failed es) = Some es"
  by (simp_all add: failure_def validation_failed_def registered_def)

text \<open>The three outcomes of the write.\<close>

lemma register_commit_saved:
  assumes "registration_validate (new_Registration oid b) = []"
    and "registration_pre_save (new_Registration oid b) = Inr ()"
    and "\<not> duplicate_key s (new_Registration oid b)"
  shows "register_commit now oid s b =
     (registered ((new_Registration oid b)\<lparr>reg_createdAt := now, reg_updatedAt := now\<rparr>) b,
      s\<lparr>registrations := registrations s @ [(new_Registration oid b)\<lparr>reg_createdAt := now, reg_updatedAt := now\<rparr>]\<rparr>)"
  using assms by (simp add: register_commit_def registration_save_cases)

lemma register_commit_conflict:
  assumes "registration_validate (new_Registration oid b) = []"
    and "registration_pre_save (new_Registration oid b) = Inr ()"
    and "duplicate_key s (new_Registration oid b)"
  shows "register_commit now oid s b =
     (failure 409 ''This transaction ID has already been used for another registration.'', s)"
  using assms by (simp add: register_commit_def registration_save_cases error_code_def)

lemma register_commit_rejected:
  assumes "registration_validate (new_Registration oid b) \<noteq> [] \<or> registration_pre_save (new_Registration oid b) \<noteq> Inr ()"
  shows "status (fst (register_commit now oid s b)) = 500" and "snd (register_commit now oid s b) = s"
proof -
  have "status (fst (register_commit now oid s b)) = 500 \<and> snd (register_commit now oid s b) = s"
  proof (cases "registration_validate (new_Registration oid b) = []")
    case False
    then show ?thesis
      by (simp add: register_commit_def registration_save_cases error_code_def)
  next
    case True
    with assms have h: "registration_pre_save (new_Registration oid b) \<noteq> Inr ()" by simp
    from registration_pre_save_Inl[OF registration_pre_save_projl[OF h]]
    have "error_code (projl (registration_pre_save (new_Registration oid b))) \<noteq> Some 11000" by simp
    with True h show ?thesis
      by (simp add: register_commit_def registration_save_cases)
  qed
  then show "status (fst (register_commit now oid s b)) = 500" and "snd (register_commit now oid s b) = s"
    by simp_all
qed

lemma register_commit_changed:
  assumes "status (fst (register_commit now oid s b)) = 201 \<or> snd (register_commit now oid s b) \<noteq> s"
  shows "register_commit now oid s b =
          (registered ((new_Registration oid b)\<lparr>reg_createdAt := now, reg_updatedAt := now\<rparr>) b,
           s\<lparr>registrations := registrations s @ [(new_Registration oid b)\<lparr>reg_createdAt := now, reg_updatedAt := now\<rparr>]\<rparr>)"
    and "registration_validate (new_Registration oid b) = []"
    and "\<not> duplicate_key s (new_Registration oid b)"
proof -
  have v: "registration_validate (new_Registration oid b) = [] \<and> registration_pre_save (new_Registration oid b) = Inr ()"
  proof (rule ccontr)
    assume n: "\<not> ?thesis"
    then have "status (fst (register_commit now oid s b)) = 500" "snd (register_commit now oid s b) = s"
      using register_commit_rejected[of oid b now s] by blast+
    then show False using assms by simp
  qed
  then show "registration_validate (new_Registration oid b) = []" by simp
  show nd: "\<not> duplicate_key s (new_Registration oid b)"
  proof
    assume "duplicate_key s (new_Registration oid b)"
    with v have "register_commit now oid s b =
      (failure 409 ''This transaction ID has already been used for another registration.'', s)"
      by (simp add: register_commit_conflict)
    with assms show False by simp
  qed
  from v nd show "register_commit now oid s b =
          (registered ((new_Registration oid b)\<lparr>reg_createdAt := now, reg_updatedAt := now\<rparr>) b,
           s\<lparr>registrations := registrations s @ [(new_Registration oid b)\<lparr>reg_createdAt := now, reg_updatedAt := now\<rparr>]\<rparr>)"
    by (simp add: register_commit_saved)
qed

lemma register_commit_duplicate:
  assumes "duplicate_key s (new_Registration oid b)"
  shows "snd (register_commit now oid s b) = s"
  using register_commit_changed(3)[of now oid s b] assms by blast

lemma register_check_status:
  "register_check s body = Inl r \<Longrightarrow> status r = 400 \<or> status r = 409"
  unfolding register_check_eq by (auto split: if_splits)

lemma register_race_changed:
  assumes "status (fst (register_race now oid s_old s body)) = 201 \<or> snd (register_race now oid s_old s body) \<noteq> s"
  shows "register_check s_old body = Inr (sanitize_registration body)"
    and "register_race now oid s_old s body = register_commit now oid s (sanitize_registration body)"
proof -
  show c: "register_check s_old body = Inr (sanitize_registration body)"
  proof (cases "register_check s_old body")
    case (Inl r)
    with register_check_status[OF Inl] assms show ?thesis
      by (auto simp: register_race_def)
  next
    case (Inr b)
    with register_check_Inr(1)[OF Inr] show ?thesis by simp
  qed
  then show "register_race now oid s_old s body = register_commit now oid s (sanitize_registration body)"
    by (simp add: register_race_def)
qed

lemma registration_errors_other: "registration_errors (b\<lparr>other := x\<rparr>) = registration_errors b"
  by (simp add: registration_errors_def game_errors_def mode_errors_def teamName_errors_def
      players_errors_def wildcard_errors_def transactionId_errors_def)

lemma sanitize_registration_other:
  "sanitize_registration (b\<lparr>other := x\<rparr>) = (sanitize_registration b)\<lparr>other := x\<rparr>"
  by (simp add: sanitize_registration_def)

lemma new_Registration_other: "new_Registration oid (b\<lparr>other := x\<rparr>) = new_Registration oid b"
  by (simp add: new_Registration_def)

lemma registered_other: "registered d (b\<lparr>other := x\<rparr>) = registered d b"
  by (simp add: registered_def)

lemma register_commit_other: "register_commit now oid s (b\<lparr>other := x\<rparr>) = register_commit now oid s b"
  by (cases "registration_save now s (new_Registration oid b)")
     (auto simp: register_commit_def new_Registration_other registered_other)

lemma register_check_other:
  "register_check s (b\<lparr>other := x\<rparr>) = map_sum id (\<lambda>c. c\<lparr>other := x\<rparr>) (register_check s b)"
  by (simp add: register_check_eq registration_errors_other sanitize_registration_other
      cong: option.case_cong)

lemma register_race_other: "register_race now oid s1 s2 (b\<lparr>other := x\<rparr>) = register_race now oid s1 s2 b"
  by (cases "register_check s1 b") (simp_all add: register_race_def register_check_other register_commit_other)

lemma duplicate_key_transaction:
  "list_ex (\<lambda>r. reg_transactionId r = reg_transactionId d) (registrations s) \<Longrightarrow> duplicate_key s d"
  by (auto simp: duplicate_key_def list_ex_iff)

lemma FEE_TABLE_policy: "m \<in> set [''solo'', ''duo'', ''squad''] \<Longrightarrow>
  FEE_TABLE m = Some (if m = ''solo'' then 5 else if m = ''duo'' then 10 else 20)"
  by (auto simp: FEE_TABLE_def)

lemma registered_fields:
  "data (registered d b) = Receipt \<lparr>registrationId = reg_id d,
       rc_game = toString (game b), rc_mode = toString (mode b),
       rc_teamName = or_null (teamName b),
       playerCount = length (case players b of None \<Rightarrow> [] | Some ps \<Rightarrow> ps),
       entryFee = FEE_TABLE (toString (mode b)),
       rc_status = ''pending''\<rparr>"
  by (simp add: registered_def)

lemma register_accepted_transaction:
  assumes "register now oid s body = (r, s')" and "status r = 201"
  shows "list_ex (\<lambda>x. reg_transactionId x = trim (toString (transactionId body))) (registrations s')"
proof -
  let ?b = "sanitize_registration body"
  let ?d = "(new_Registration oid ?b)\<lparr>reg_createdAt := now, reg_updatedAt := now\<rparr>"
  from assms have ch: "status (fst (register_race now oid s s body)) = 201"
    by (simp add: register_def)
  from register_race_changed(2)[OF disjI1[OF ch]]
  have com: "register_race now oid s s body = register_commit now oid s ?b" .
  with ch have "status (fst (register_commit now oid s ?b)) = 201" by simp
  from register_commit_changed(1)[OF disjI1[OF this]] com assms(1)
  have "s' = s\<lparr>registrations := registrations s @ [?d]\<rparr>" by (simp add: register_def)
  then show ?thesis by (simp add: new_Registration_fields)
qed

lemma register_race_duplicate_unchanged:
  assumes "list_ex (\<lambda>x. reg_transactionId x = trim (toString (transactionId body))) (registrations s)"
  shows "snd (register_race now oid s_old s body) = s"
proof (rule ccontr)
  assume n: "snd (register_race now oid s_old s body) \<noteq> s"
  from register_race_changed(2)[OF disjI2[OF n]] n
  have "snd (register_commit now oid s (sanitize_registration body)) \<noteq> s" by simp
  from register_commit_changed(3)[OF disjI2[OF this]]
  have "\<not> duplicate_key s (new_Registration oid (sanitize_registration body))" .
  moreover have "duplicate_key s (new_Registration oid (sanitize_registration body))"
    by (rule duplicate_key_transaction) (simp add: new_Registration_fields assms)
  ultimately show False by simp
qed

lemma register_invalid:
  "registration_errors body \<noteq> [] \<Longrightarrow>
     register now oid s body = (validation_failed (registration_errors body), s)"
  by (simp add: register_def register_race_def register_check_invalid)

lemma PLAYER_COUNT_solo: "PLAYER_COUNT ''solo'' = Some 1"
  by (simp add: PLAYER_COUNT_def)

lemma register_check_solo:
  assumes "trim (toString (mode body)) = ''solo''" and "registration_errors body = []"
    and "\<not> list_ex (\<lambda>r. reg_transactionId r = trim (toString (transactionId body))) (registrations s)"
  shows "register_check s body = Inr (sanitize_registration body)"
proof -
  from assms(2) obtain ps where "players body = Some ps" "1 \<le> length ps"
    by (auto simp: registration_errors_Nil)
  with assms show ?thesis
    by (auto simp: register_check_eq PLAYER_COUNT_solo)
qed

section \<open>Lemmas: tokens and the middleware\<close>

lemma jwt_verify_Inl:
  "jwt_verify t secret now = Inl e \<Longrightarrow>
     error_name e = ''JsonWebTokenError'' \<or> error_name e = ''TokenExpiredError''"
  by (cases t) (auto simp: jwt_verify_def error_name_def split: if_splits)

lemma protect_catch_jwt:
  "error_name e = ''JsonWebTokenError'' \<or> error_name e = ''TokenExpiredError'' \<Longrightarrow>
     status (protect_catch e) = 401"
  by (auto simp: protect_catch_def)

lemma Admin_findById_admins: "admins s' = admins s \<Longrightarrow> Admin_findById s' = Admin_findById s"
  by (auto simp: fun_eq_iff Admin_findById_def split: sum.splits)

lemma protect_admins: "admins s' = admins s \<Longrightarrow> protect L E now s' h = protect L E now s h"
  using Admin_findById_admins[of s' s] by (simp add: protect_def Let_def split: sum.splits option.splits)

lemma protect_missing:
  "falsy (bearer_token h) \<Longrightarrow> protect L E now s h = Inl (failure 401 ''Not authorized. Please login.'')"
  by (simp add: protect_def)

lemma protect_rejected_token:
  assumes "\<not> falsy (bearer_token h)"
    and "jwt_verify (jwt_decode L (toString (bearer_token h))) (JWT_SECRET E) now = Inl e"
  shows "protect L E now s h = Inl (protect_catch e)"
  using assms by (simp add: protect_def)

lemma protect_no_account:
  assumes "\<not> falsy (bearer_token h)"
    and "jwt_verify (jwt_decode L (toString (bearer_token h))) (JWT_SECRET E) now = Inr c"
    and "Admin_findById s (jwt_id c) = Inr None"
  shows "protect L E now s h = Inl (failure 401 ''Admin account not found.'')"
  using assms by (simp add: protect_def)

lemma protect_found:
  assumes "\<not> falsy (bearer_token h)"
    and "jwt_verify (jwt_decode L (toString (bearer_token h))) (JWT_SECRET E) now = Inr c"
    and "Admin_findById s (jwt_id c) = Inr (Some a)"
  shows "protect L E now s h = Inr a"
  using assms by (simp add: protect_def)

lemma protect_unauthorized:
  assumes "falsy (bearer_token h)
     \<or> (\<exists>e. jwt_verify (jwt_decode L (toString (bearer_token h))) (JWT_SECRET E) now = Inl e)
     \<or> (\<exists>c. jwt_verify (jwt_decode L (toString (bearer_token h))) (JWT_SECRET E) now = Inr c
            \<and> Admin_findById s (jwt_id c) = Inr None)"
  shows "\<exists>r. protect L E now s h = Inl r \<and> status r = 401"
proof (cases "falsy (bearer_token h)")
  case True
  then show ?thesis by (simp add: protect_missing)
next
  case False
  with assms consider
    (bad) e where "jwt_verify (jwt_decode L (toString (bearer_token h))) (JWT_SECRET E) now = Inl e"
  | (gone) c where "jwt_verify (jwt_decode L (toString (bearer_token h))) (JWT_SECRET E) now = Inr c"
      "Admin_findById s (jwt_id c) = Inr None"
    by blast
  then show ?thesis
  proof cases
    case bad
    from protect_catch_jwt[OF jwt_verify_Inl[OF bad]] protect_rejected_token[OF False bad]
    show ?thesis by simp
  next
    case gone
    from protect_no_account[OF False gone] show ?thesis by simp
  qed
qed

section \<open>Token lifetime\<close>

lemma generateToken_Inr:
  assumes "generateToken E T aid = Inr tok"
  shows "\<not> falsy (JWT_SECRET E)"
    and "tok = Signed (toString (JWT_SECRET E)) \<lparr>jwt_id = aid, iat = T div 1000, exp = T div 1000 + 604800\<rparr>"
  using assms by (auto simp: generateToken_def jwt_sign_def seven_days_def split: if_splits)

lemma jwt_verify_issued:
  assumes "generateToken E T aid = Inr tok"
  shows "jwt_verify tok (JWT_SECRET E) t =
     (if t div 1000 < T div 1000 + 604800
      then Inr \<lparr>jwt_id = aid, iat = T div 1000, exp = T div 1000 + 604800\<rparr>
      else Inl (TokenExpiredError ''jwt expired''))"
  using generateToken_Inr[OF assms] by (simp add: jwt_verify_def)

section \<open>Login\<close>

lemma login_invalid:
  "login_errors L body \<noteq> [] \<Longrightarrow> login L E now s body = (failure 400 (hd (login_errors L body)), s)"
  by (simp add: login_def)

lemma login_unknown:
  "login_errors L body = [] \<Longrightarrow> Admin_findOne s (login_email L body) = None \<Longrightarrow>
     login L E now s body = (invalid_credentials, s)"
  by (simp add: login_def)

lemma login_wrong_password:
  "login_errors L body = [] \<Longrightarrow> Admin_findOne s (login_email L body) = Some a \<Longrightarrow>
     lb_password body = Some (JStr p) \<Longrightarrow> \<not> bcrypt_compare L p (adm_password a) \<Longrightarrow>
     login L E now s body = (invalid_credentials, s)"
  by (simp add: login_def comparePassword_def)

lemma comparePassword_not_string:
  "(\<And>p. candidate \<noteq> Some (JStr p)) \<Longrightarrow>
     comparePassword L a candidate
       = Inl (Error (''Illegal arguments: '' @ typeof candidate @ '', string''))"
  by (simp add: comparePassword_def split: option.split json.split)

lemma login_not_string:
  "login_errors L body = [] \<Longrightarrow> Admin_findOne s (login_email L body) = Some a \<Longrightarrow>
     (\<And>p. lb_password body \<noteq> Some (JStr p)) \<Longrightarrow>
     login L E now s body = (login_failed, s)"
  by (simp add: login_def comparePassword_not_string)

text \<open>With a password that is a string, the two refusals are answered alike.\<close>

lemma login_refused:
  assumes "lb_password body = Some (JStr p)"
    and "case Admin_findOne s (login_email L body) of None \<Rightarrow> True
           | Some a \<Rightarrow> \<not> bcrypt_compare L p (adm_password a)"
  shows "login L E now s body =
     (if login_errors L body \<noteq> [] then failure 400 (hd (login_errors L body)) else invalid_credentials, s)"
proof (cases "login_errors L body = []")
  case False
  then show ?thesis by (simp add: login_invalid)
next
  case True
  show ?thesis
  proof (cases "Admin_findOne s (login_email L body)")
    case None
    with True show ?thesis by (simp add: login_unknown)
  next
    case (Some a)
    with assms True show ?thesis by (simp add: login_wrong_password)
  qed
qed

lemma login_refused_examples:
  "login example_library example_env 5000 admin_store unknown_login = (invalid_credentials, admin_store)
   \<and> login example_library example_env 5000 admin_store wrong_password_login
       = (invalid_credentials, admin_store)"
proof -
  have valid: "login_errors example_library unknown_login = []" by code_simp
  have valid': "login_errors example_library wrong_password_login = []" by code_simp
  have unknown: "Admin_findOne admin_store (login_email example_library unknown_login) = None"
    by code_simp
  have known: "Admin_findOne admin_store (login_email example_library wrong_password_login)
      = Some example_admin" by code_simp
  have pw: "lb_password wrong_password_login = Some (JStr ''battery staple'')"
    by (simp add: wrong_password_login_def)
  have wrong: "\<not> bcrypt_compare example_library ''battery staple'' (adm_password example_admin)"
    by code_simp
  from login_unknown[OF valid unknown] login_wrong_password[OF valid' known pw wrong]
  show ?thesis by simp
qed

section \<open>Statistics\<close>

lemma foldl_fee:
  "foldl (\<lambda>sum r. sum + (case reg_entryFee r of None \<Rightarrow> 0 | Some f \<Rightarrow> if f = 0 then 0 else f)) a xs
     = a + sum_list (map (\<lambda>r. case reg_entryFee r of None \<Rightarrow> 0 | Some f \<Rightarrow> f) xs)"
  by (induction xs arbitrary: a) (simp_all split: option.splits)

lemma totalRevenue_sum:
  "totalRevenue rs = sum_list (map (\<lambda>r. case reg_entryFee r of None \<Rightarrow> 0 | Some f \<Rightarrow> f)
                        (filter (\<lambda>r. reg_status r = ''approved'') rs))"
  by (simp add: totalRevenue_def foldl_fee)

section \<open>Every failing field is reported\<close>

lemma in_registration_errors:
  "m \<in> set (registration_errors b) \<longleftrightarrow>
     m \<in> set (game_errors b) \<or> m \<in> set (mode_errors b) \<or> m \<in> set (teamName_errors b)
     \<or> m \<in> set (players_errors b)
     \<or> m \<in> set (wildcard_errors inGameName inGameName_rule b)
     \<or> m \<in> set (wildcard_errors inGameId inGameId_rule b)
     \<or> m \<in> set (wildcard_errors phone phone_rule b)
     \<or> m \<in> set (transactionId_errors b)"
  by (simp add: registration_errors_def)

lemma game_reported:
  "trim (toString (game b)) \<notin> set [''pubg'', ''freefire'', ''cod'']
     \<Longrightarrow> ''Invalid game selection'' \<in> set (registration_errors b)"
  by (simp add: in_registration_errors game_errors_def run_chain_game)

lemma mode_reported:
  "trim (toString (mode b)) \<notin> set [''solo'', ''duo'', ''squad'']
     \<Longrightarrow> ''Invalid mode selection'' \<in> set (registration_errors b)"
  by (simp add: in_registration_errors mode_errors_def run_chain_mode)

lemma teamName_reported:
  "50 < length (trim (toString (teamName b)))
     \<Longrightarrow> ''Team name cannot exceed 50 characters'' \<in> set (registration_errors b)"
  by (cases "teamName b") (auto simp: in_registration_errors teamName_errors_def run_chain_teamName)

lemma players_reported:
  "\<not> isArray 1 5 (players b) \<Longrightarrow> players_msg \<in> set (registration_errors b)"
  by (simp add: in_registration_errors players_errors_def)

lemma wildcard_reported:
  assumes "players b = Some ps" and "p \<in> set ps" and "m \<in> set (snd (run_chain rule (toString (f p))))"
  shows "m \<in> set (wildcard_errors f rule b)"
  using assms by (auto simp: wildcard_errors_def)

lemma inGameName_reported:
  "players b = Some ps \<Longrightarrow> p \<in> set ps \<Longrightarrow> trim (toString (inGameName p)) = []
     \<Longrightarrow> ''In-game name is required for all players'' \<in> set (registration_errors b)"
proof -
  assume "players b = Some ps" and "p \<in> set ps" and "trim (toString (inGameName p)) = []"
  then have "''In-game name is required for all players'' \<in> set (wildcard_errors inGameName inGameName_rule b)"
    by (intro wildcard_reported[where p = p]) (simp_all add: run_chain_inGameName)
  then show ?thesis by (simp add: in_registration_errors)
qed

lemma inGameId_reported:
  "players b = Some ps \<Longrightarrow> p \<in> set ps \<Longrightarrow> trim (toString (inGameId p)) = []
     \<Longrightarrow> ''In-game ID is required for all players'' \<in> set (registration_errors b)"
proof -
  assume "players b = Some ps" and "p \<in> set ps" and "trim (toString (inGameId p)) = []"
  then have "''In-game ID is required for all players'' \<in> set (wildcard_errors inGameId inGameId_rule b)"
    by (intro wildcard_reported[where p = p]) (simp_all add: run_chain_inGameId)
  then show ?thesis by (simp add: in_registration_errors)
qed

lemma phone_reported:
  "players b = Some ps \<Longrightarrow> p \<in> set ps \<Longrightarrow> trim (toString (phone p)) = []
     \<Longrightarrow> ''Phone number is required for all players'' \<in> set (registration_errors b)"
proof -
  assume "players b = Some ps" and "p \<in> set ps" and "trim (toString (phone p)) = []"
  then have "''Phone number is required for all players'' \<in> set (wildcard_errors phone phone_rule b)"
    by (intro wildcard_reported[where p = p]) (simp_all add: run_chain_phone)
  then show ?thesis by (simp add: in_registration_errors)
qed

lemma transactionId_reported:
  "length (trim (toString (transactionId b))) < 5
     \<Longrightarrow> ''Transaction ID must be at least 5 characters'' \<in> set (registration_errors b)"
  by (simp add: in_registration_errors transactionId_errors_def run_chain_transactionId)

lemma run_chain_name: "run_chain name_rule v =
   (trim v, (if trim v \<noteq> [] then [] else [''Name is required''])
            @ (if 2 \<le> length (trim v) \<and> length (trim v) \<le> 100 then []
               else [''Name must be 2'' @ en_dash @ ''100 characters'']))"
  by (simp add: name_rule_def notEmpty_def isLength_def)

lemma run_chain_email: "run_chain (email_rule L) v =
   (normalizeEmail L (trim v), (if trim v \<noteq> [] then [] else [''Email is required''])
            @ (if isEmail L (trim v) then [] else [''Invalid email format'']))"
  by (simp add: email_rule_def notEmpty_def)

lemma run_chain_subject: "run_chain subject_rule v =
   (trim v, (if trim v \<noteq> [] then [] else [''Subject is required''])
            @ (if trim v \<in> set subjects then [] else [''Invalid subject category'']))"
  by (simp add: subject_rule_def notEmpty_def isIn_def)

lemma run_chain_message: "run_chain message_rule v =
   (trim v, (if trim v \<noteq> [] then [] else [''Message is required''])
            @ (if 10 \<le> length (trim v) \<and> length (trim v) \<le> 2000 then []
               else [''Message must be 10'' @ en_dash @ ''2000 characters'']))"
  by (simp add: message_rule_def notEmpty_def isLength_def)

lemma in_contact_errors:
  "m \<in> set (contact_errors L b) \<longleftrightarrow>
     m \<in> set (name_errors b) \<or> m \<in> set (email_errors L b) \<or> m \<in> set (contact_phone_errors b)
     \<or> m \<in> set (subject_errors b) \<or> m \<in> set (message_errors b)"
  by (simp add: contact_errors_def)

lemma name_reported:
  "length (trim (toString (cb_name b))) < 2 \<or> 100 < length (trim (toString (cb_name b)))
     \<Longrightarrow> ''Name must be 2'' @ en_dash @ ''100 characters'' \<in> set (contact_errors L b)"
  by (auto simp: in_contact_errors name_errors_def run_chain_name)

lemma email_reported:
  "\<not> isEmail L (trim (toString (cb_email b)))
     \<Longrightarrow> ''Invalid email format'' \<in> set (contact_errors L b)"
  by (simp add: in_contact_errors email_errors_def run_chain_email)

lemma email_required_reported:
  "trim (toString (cb_email b)) = []
     \<Longrightarrow> ''Email is required'' \<in> set (contact_errors L b)"
  by (simp add: in_contact_errors email_errors_def run_chain_email)

lemma subject_reported:
  "trim (toString (cb_subject b)) \<notin> set subjects
     \<Longrightarrow> ''Invalid subject category'' \<in> set (contact_errors L b)"
  by (simp add: in_contact_errors subject_errors_def run_chain_subject)

lemma message_reported:
  "length (trim (toString (cb_message b))) < 10 \<or> 2000 < length (trim (toString (cb_message b)))
     \<Longrightarrow> ''Message must be 10'' @ en_dash @ ''2000 characters'' \<in> set (contact_errors L b)"
  by (auto simp: in_contact_errors message_errors_def run_chain_message)

lemma submit_contact_invalid:
  "contact_errors L b \<noteq> [] \<Longrightarrow> submit_contact L now oid s b = (validation_failed (contact_errors L b), s)"
  by (simp add: submit_contact_def)

section \<open>The roster invariant\<close>

lemma pre_save_complete:
  assumes "reg_mode d \<in> set [''solo'', ''duo'', ''squad'']"
  shows "registration_pre_save d = Inr () \<longleftrightarrow> roster_complete d"
proof -
  from assms consider "reg_mode d = ''solo''" | "reg_mode d = ''duo''" | "reg_mode d = ''squad''"
    by auto
  then show ?thesis
    by cases (auto simp: registration_pre_save_def roster_complete_def expectedPlayers_def
        Suc_le_eq not_less)
qed

lemma validate_mode:
  "registration_validate d = [] \<Longrightarrow> reg_mode d \<in> set [''solo'', ''duo'', ''squad'']"
  unfolding registration_validate_def append_is_Nil_conv
  by (auto split: if_splits)

lemma roster_complete_mode:
  "roster_complete d \<Longrightarrow> reg_mode d \<in> set [''solo'', ''duo'', ''squad'']"
  by (auto simp: roster_complete_def)

lemma save_complete:
  assumes "registration_save now s d = Inr (d', s')"
  shows "roster_complete d'"
proof -
  from registration_save_Inr[OF assms]
  have d': "d' = d\<lparr>reg_createdAt := now, reg_updatedAt := now\<rparr>"
    and v: "registration_validate d = []" and h: "registration_pre_save d = Inr ()" by simp_all
  from pre_save_complete[OF validate_mode[OF v]] h have "roster_complete d" by simp
  then show ?thesis by (simp add: d' roster_complete_def)
qed

lemma save_incomplete:
  assumes "\<not> roster_complete d"
  shows "\<exists>e. registration_save now s d = Inl e"
proof (cases "registration_save now s d")
  case (Inl e)
  then show ?thesis by blast
next
  case (Inr p)
  obtain d' s' where p: "p = (d', s')" by (cases p)
  from registration_save_Inr[OF Inr[unfolded p]]
  have v: "registration_validate d = []" and h: "registration_pre_save d = Inr ()" by simp_all
  from pre_save_complete[OF validate_mode[OF v]] h assms show ?thesis by simp
qed

lemma set_update_first:
  "x \<in> set (update_first P f xs) \<Longrightarrow> x \<in> set xs \<or> (\<exists>y \<in> set xs. x = f y)"
  by (induction xs) (auto split: if_splits)

lemma set_remove_first: "x \<in> set (remove_first P xs) \<Longrightarrow> x \<in> set xs"
  by (induction xs) (auto split: if_splits)

lemma submit_contact_registrations:
  "registrations (snd (submit_contact L now oid s body)) = registrations s"
  by (cases "contact_save now s (new_Contact oid (sanitize_contact L body))")
     (auto simp: submit_contact_def contact_save_def Let_def split: if_splits)

lemma login_registrations: "registrations (snd (login L E now s body)) = registrations s"
  by (auto simp: login_def save_lastLogin_def split: option.splits sum.splits)

lemma register_race_complete:
  assumes "\<forall>r \<in> set (registrations s). roster_complete r"
  shows "\<forall>r \<in> set (registrations (snd (register_race now oid s_old s body))). roster_complete r"
proof (cases "snd (register_race now oid s_old s body) = s")
  case True
  with assms show ?thesis by simp
next
  case False
  let ?b = "sanitize_registration body"
  let ?d = "(new_Registration oid ?b)\<lparr>reg_createdAt := now, reg_updatedAt := now\<rparr>"
  from register_race_changed(2)[OF disjI2[OF False]]
  have com: "register_race now oid s_old s body = register_commit now oid s ?b" .
  with False have ch: "snd (register_commit now oid s ?b) \<noteq> s" by simp
  note c = register_commit_changed[OF disjI2[OF ch]]
  have sv: "registration_save now s (new_Registration oid ?b) = Inr (?d, s\<lparr>registrations := registrations s @ [?d]\<rparr>)"
  proof (cases "registration_save now s (new_Registration oid ?b)")
    case (Inl e)
    then have "snd (register_commit now oid s ?b) = s" by (simp add: register_commit_def)
    with ch show ?thesis by simp
  next
    case (Inr p)
    obtain d' s' where p: "p = (d', s')" by (cases p)
    from registration_save_Inr[OF Inr[unfolded p]] Inr p show ?thesis by simp
  qed
  from save_complete[OF sv] have "roster_complete ?d" .
  moreover from c(1) com have "registrations (snd (register_race now oid s_old s body)) = registrations s @ [?d]"
    by simp
  ultimately show ?thesis using assms by simp
qed

lemma patch_registration_complete:
  assumes "\<forall>r \<in> set (registrations s). roster_complete r"
  shows "\<forall>r \<in> set (registrations (snd (patch_registration now s ident st))). roster_complete r"
proof -
  have keep: "roster_complete (r\<lparr>reg_status := a, reg_updatedAt := b\<rparr>) = roster_complete r" for r a b
    by (simp add: roster_complete_def)
  have "\<forall>r \<in> set (update_first P (\<lambda>r. r\<lparr>reg_status := a, reg_updatedAt := b\<rparr>) (registrations s)).
          roster_complete r" for P a b
    using assms by (auto dest!: set_update_first simp: keep)
  with assms show ?thesis
    by (auto simp: patch_registration_def split: sum.splits option.splits)
qed

lemma admin_handler_complete:
  assumes "\<forall>r \<in> set (registrations s). roster_complete r"
  shows "\<forall>r \<in> set (registrations (snd (admin_handler now s a op))). roster_complete r"
proof (cases op)
  case (PatchRegistration ident st)
  with patch_registration_complete[OF assms] show ?thesis by (simp add: admin_handler_def)
next
  case (PatchContact ident st)
  with assms show ?thesis
    by (auto simp: admin_handler_def patch_contact_def split: sum.splits option.splits)
next
  case (DeleteContact ident)
  with assms show ?thesis
    by (auto simp: admin_handler_def delete_contact_def split: sum.splits option.splits)
qed (use assms in \<open>simp_all add: admin_handler_def\<close>)

lemma admin_route_complete:
  assumes "\<forall>r \<in> set (registrations s). roster_complete r"
  shows "\<forall>r \<in> set (registrations (snd (admin_route L E now s h op))). roster_complete r"
  using assms admin_handler_complete[OF assms]
  by (cases "protect L E now s h") (simp_all add: admin_route_def)

lemma reachable_complete:
  assumes "reachable L E s0 s1" and "\<forall>r \<in> set (registrations s0). roster_complete r"
  shows "\<forall>r \<in> set (registrations s1). roster_complete r"
  using assms
proof (induction rule: reachable.induct)
  case start
  then show ?case by simp
next
  case (contact s now oid body)
  then show ?case by (simp add: submit_contact_registrations)
next
  case (registration s now oid s_old rbody)
  then show ?case by (intro register_race_complete) simp
next
  case (logged_in s now lbody)
  then show ?case by (simp add: login_registrations)
next
  case (administered s now authorization op)
  then show ?case by (intro admin_route_complete) simp
qed

section \<open>Registrations are never removed\<close>

lemma list_ex_update_first:
  "list_ex P xs \<Longrightarrow> (\<And>x. P x \<Longrightarrow> P (f x)) \<Longrightarrow> list_ex P (update_first Q f xs)"
  by (induction xs) auto

lemma register_race_registrations:
  "\<exists>ds. registrations (snd (register_race now oid s_old s body)) = registrations s @ ds"
proof (cases "snd (register_race now oid s_old s body) = s")
  case True
  then show ?thesis by simp
next
  case False
  from register_race_changed(2)[OF disjI2[OF False]] False
  have "snd (register_commit now oid s (sanitize_registration body)) \<noteq> s"
    and "register_race now oid s_old s body = register_commit now oid s (sanitize_registration body)"
    by simp_all
  with register_commit_changed(1)[OF disjI2[OF this(1)]] show ?thesis by simp
qed

lemma admin_route_keeps_transaction:
  assumes "list_ex (\<lambda>r. reg_transactionId r = t) (registrations s)"
  shows "list_ex (\<lambda>r. reg_transactionId r = t) (registrations (snd (admin_route L E now s h op)))"
proof (cases "protect L E now s h")
  case (Inl r)
  with assms show ?thesis by (simp add: admin_route_def)
next
  case (Inr a)
  have "list_ex (\<lambda>r. reg_transactionId r = t) (registrations (snd (admin_handler now s a op)))"
  proof (cases op)
    case (PatchRegistration ident st)
    have "list_ex (\<lambda>r. reg_transactionId r = t)
            (update_first Q (\<lambda>r. r\<lparr>reg_status := x, reg_updatedAt := y\<rparr>) (registrations s))" for Q x y
      by (rule list_ex_update_first[OF assms]) simp
    with assms PatchRegistration show ?thesis
      by (auto simp: admin_handler_def patch_registration_def split: sum.splits option.splits)
  next
    case (PatchContact ident st)
    with assms show ?thesis
      by (auto simp: admin_handler_def patch_contact_def split: sum.splits option.splits)
  next
    case (DeleteContact ident)
    with assms show ?thesis
      by (auto simp: admin_handler_def delete_contact_def split: sum.splits option.splits)
  qed (use assms in \<open>simp_all add: admin_handler_def\<close>)
  with Inr show ?thesis by (simp add: admin_route_def)
qed

lemma reachable_keeps_transaction:
  assumes "reachable L E s1 s2" and "list_ex (\<lambda>r. reg_transactionId r = t) (registrations s1)"
  shows "list_ex (\<lambda>r. reg_transactionId r = t) (registrations s2)"
  using assms
proof (induction rule: reachable.induct)
  case start
  then show ?case by simp
next
  case (contact s now oid body)
  then show ?case by (simp add: submit_contact_registrations)
next
  case (registration s now oid s_old rbody)
  from register_race_registrations[of now oid s_old s rbody] obtain ds where
    "registrations (snd (register_race now oid s_old s rbody)) = registrations s @ ds" by blast
  with registration show ?case by simp
next
  case (logged_in s now lbody)
  then show ?case by (simp add: login_registrations)
next
  case (administered s now authorization op)
  then show ?case by (intro admin_route_keeps_transaction) simp
qed

section \<open>Lemmas: the schema after the route\<close>

lemma FEE_TABLE_min: "m \<in> set [''solo'', ''duo'', ''squad''] \<Longrightarrow> \<exists>f. FEE_TABLE m = Some f \<and> 5 \<le> f"
  by (auto simp: FEE_TABLE_def)

lemma cast_sanitize_player:
  "cast_player (sanitize_player p) = \<lparr>inGameName = Some (trim (toString (inGameName p))),
     inGameId = Some (trim (toString (inGameId p))),
     phone = Some (trim (toString (phone p))),
     email = map_option (\<lambda>e. toLowerCase (trim e)) (email p)\<rparr>"
  by (simp add: cast_player_def sanitize_player_def run_chain_registration)

lemma player_validate_sanitized:
  assumes "trim (toString (inGameName p)) \<noteq> []" and "trim (toString (inGameId p)) \<noteq> []"
    and "trim (toString (phone p)) \<noteq> []"
  shows "player_validate i (cast_player (sanitize_player p)) = [] \<longleftrightarrow>
     length (trim (toString (inGameName p))) \<le> 50 \<and> length (trim (toString (inGameId p))) \<le> 30"
  using assms
  by (auto simp: player_validate_def cast_sanitize_player maxlength_errors_def required_errors_def Let_def)

lemma concat_enumerate_Nil:
  "(\<And>i p. p \<in> set xs \<Longrightarrow> (f i p = [] \<longleftrightarrow> Q p)) \<Longrightarrow>
     concat (map (\<lambda>(i, p). f i p) (enumerate n xs)) = [] \<longleftrightarrow> (\<forall>p \<in> set xs. Q p)"
  by (induction xs arbitrary: n) auto

lemma enumerate_map_arg:
  "map (\<lambda>(i, p). f i p) (enumerate n (map g xs)) = map (\<lambda>(i, p). f i (g p)) (enumerate n xs)"
  by (induction xs arbitrary: n) simp_all

text \<open>
  Of the schema's validators only the two length limits of a player can fail on a document
  built from a body that passed the route's rules.
\<close>

lemma schema_after_route:
  assumes ok: "registration_errors body = []"
  shows "registration_validate (new_Registration oid (sanitize_registration body)) = [] \<longleftrightarrow>
     (\<forall>p \<in> set (case players body of None \<Rightarrow> [] | Some ps \<Rightarrow> ps).
        length (trim (toString (inGameName p))) \<le> 50 \<and> length (trim (toString (inGameId p))) \<le> 30)"
proof -
  let ?d = "new_Registration oid (sanitize_registration body)"
  from ok obtain ps where ps: "players body = Some ps" "1 \<le> length ps" "length ps \<le> 5"
    and fields: "\<forall>p \<in> set ps. trim (toString (inGameName p)) \<noteq> []
                 \<and> trim (toString (inGameId p)) \<noteq> [] \<and> trim (toString (phone p)) \<noteq> []"
    and g: "trim (toString (game body)) \<in> set [''pubg'', ''freefire'', ''cod'']"
    and m: "trim (toString (mode body)) \<in> set [''solo'', ''duo'', ''squad'']"
    and t: "length (trim (toString (teamName body))) \<le> 50"
    and x: "5 \<le> length (trim (toString (transactionId body)))"
    unfolding registration_errors_Nil by blast
  from FEE_TABLE_min[OF m] obtain f where f: "FEE_TABLE (trim (toString (mode body))) = Some f" "5 \<le> f"
    by blast
  have g': "trim (toString (game body)) \<noteq> []" using g by auto
  have m': "trim (toString (mode body)) \<noteq> []" using m by auto
  have x': "trim (toString (transactionId body)) \<noteq> []" using x by auto
  have team: "maxlength_errors ''teamName'' 50 ''Team name cannot exceed 50 characters''
                (or_null (teamName (sanitize_registration body))) = []"
    using t by (cases "teamName body") (auto simp: maxlength_errors_def or_null_def sanitized_fields)
  have roster: "concat (map (\<lambda>(i, p). player_validate i p)
        (enumerate 0 (map (\<lambda>p. cast_player (sanitize_player p)) ps))) = [] \<longleftrightarrow>
      (\<forall>p \<in> set ps. length (trim (toString (inGameName p))) \<le> 50
                    \<and> length (trim (toString (inGameId p))) \<le> 30)"
  proof -
    have "concat (map (\<lambda>(i, p). player_validate i (cast_player (sanitize_player p))) (enumerate 0 ps)) = []
       \<longleftrightarrow> (\<forall>p \<in> set ps. length (trim (toString (inGameName p))) \<le> 50
                    \<and> length (trim (toString (inGameId p))) \<le> 30)"
      by (rule concat_enumerate_Nil) (use fields in \<open>simp add: player_validate_sanitized\<close>)
    moreover have "map (\<lambda>(i, p). player_validate i p)
        (enumerate 0 (map (\<lambda>p. cast_player (sanitize_player p)) ps))
      = map (\<lambda>(i, p). player_validate i (cast_player (sanitize_player p))) (enumerate 0 ps)"
      by (rule enumerate_map_arg)
    ultimately show ?thesis by simp
  qed
  show ?thesis
    unfolding registration_validate_def new_Registration_fields append_is_Nil_conv
    using g g' m m' x' f team roster ps by simp
qed

section \<open>The claims\<close>

text \<open>
  Claim C1. A registration that passes validation and is persisted stores and echoes the
  entry fee of its mode (solo 5, duo 10, squad 20), the mode being the submitted one without
  surrounding blanks. The fee is read from the server's table: a request changed in any
  field but the five the handler reads (a client's \<^verbatim>\<open>entryFee\<close> among them) gets the same
  answer and leaves the same store.
\<close>

theorem C1_entry_fee_from_mode:
  assumes run: "register now oid s body = (r, s')" and persisted: "s' \<noteq> s"
  shows "\<exists>d rc m. m = trim (toString (mode body)) \<and> m \<in> set [''solo'', ''duo'', ''squad'']
     \<and> registrations s' = registrations s @ [d] \<and> status r = 201 \<and> data r = Receipt rc
     \<and> reg_entryFee d = Some (if m = ''solo'' then 5 else if m = ''duo'' then 10 else 20)
     \<and> entryFee rc = reg_entryFee d
     \<and> register now oid s (body\<lparr>other := x\<rparr>) = (r, s')"
proof -
  let ?b = "sanitize_registration body"
  let ?d = "(new_Registration oid ?b)\<lparr>reg_createdAt := now, reg_updatedAt := now\<rparr>"
  from run persisted have ch: "snd (register_race now oid s s body) \<noteq> s"
    by (simp add: register_def)
  from register_race_changed[OF disjI2[OF ch]]
  have chk: "register_check s body = Inr ?b"
    and com: "register_race now oid s s body = register_commit now oid s ?b" by simp_all
  from ch com have "snd (register_commit now oid s ?b) \<noteq> s" by simp
  from register_commit_changed(1)[OF disjI2[OF this]] com run
  have r: "r = registered ?d ?b" and s': "s' = s\<lparr>registrations := registrations s @ [?d]\<rparr>"
    by (simp_all add: register_def)
  from register_check_Inr(2)[OF chk]
  have m: "trim (toString (mode body)) \<in> set [''solo'', ''duo'', ''squad'']"
    by (simp add: registration_errors_Nil)
  have fee: "reg_entryFee ?d = FEE_TABLE (trim (toString (mode body)))"
    by (simp add: new_Registration_fields)
  have same: "register now oid s (body\<lparr>other := x\<rparr>) = (r, s')"
    using run by (simp add: register_def register_race_other)
  have "registrations s' = registrations s @ [?d]" by (simp add: s')
  moreover have "status r = 201" by (simp add: r)
  moreover have "data r = Receipt \<lparr>registrationId = reg_id ?d,
       rc_game = toString (game ?b), rc_mode = toString (mode ?b),
       rc_teamName = or_null (teamName ?b),
       playerCount = length (case players ?b of None \<Rightarrow> [] | Some ps \<Rightarrow> ps),
       entryFee = FEE_TABLE (toString (mode ?b)), rc_status = ''pending''\<rparr>"
    unfolding r by (rule registered_fields)
  ultimately show ?thesis
    using m same fee FEE_TABLE_policy[OF m] by (simp add: sanitized_fields)
qed

theorem C1_entry_fee_from_mode_witness:
  "snd (register 1000 oid1 empty_store duo_body) \<noteq> empty_store
   \<and> (\<exists>d rc. registrations (snd (register 1000 oid1 empty_store duo_body)) = [d]
        \<and> data (fst (register 1000 oid1 empty_store duo_body)) = Receipt rc
        \<and> reg_entryFee d = Some 10 \<and> entryFee rc = Some 10)
   \<and> register 1000 oid1 empty_store (duo_body\<lparr>other := [(''entryFee'', JNum 1)]\<rparr>)
       = register 1000 oid1 empty_store duo_body"
proof -
  let ?R = "register 1000 oid1 empty_store duo_body"
  have run: "?R = (fst ?R, snd ?R)" by simp
  have ne: "snd ?R \<noteq> empty_store" by code_simp
  have m: "trim (toString (mode duo_body)) = ''duo''" by code_simp
  have e: "registrations empty_store = []" by (simp add: empty_store_def)
  from C1_entry_fee_from_mode[OF run ne, where x = "[(''entryFee'', JNum 1)]"]
  obtain d rc mm where h: "mm = trim (toString (mode duo_body))"
    "registrations (snd ?R) = registrations empty_store @ [d]" "data (fst ?R) = Receipt rc"
    "reg_entryFee d = Some (if mm = ''solo'' then 5 else if mm = ''duo'' then 10 else 20)"
    "entryFee rc = reg_entryFee d"
    "register 1000 oid1 empty_store (duo_body\<lparr>other := [(''entryFee'', JNum 1)]\<rparr>) = (fst ?R, snd ?R)"
    by blast
  from h(1,4) m have fee: "reg_entryFee d = Some 10" by simp
  with h(5) have echo: "entryFee rc = Some 10" by simp
  from h(2) e have one: "registrations (snd ?R) = [d]" by simp
  from one h(3) fee echo have "\<exists>d rc. registrations (snd ?R) = [d] \<and> data (fst ?R) = Receipt rc
        \<and> reg_entryFee d = Some 10 \<and> entryFee rc = Some 10" by blast
  with ne h(6) show ?thesis by simp
qed

text \<open>
  Claim C2. Once a registration has been accepted, a later submission carrying the same
  transaction id (whatever was served in between) is never persisted. Its duplicate lookup,
  which a request reaches when it passes the field validation, finds the existing
  registration and answers 409; when the lookup ran on an older store and missed it, the
  unique index refuses the write and the handler's \<^verbatim>\<open>catch\<close> answers 409 as well.
\<close>

theorem C2_duplicate_transaction_conflict:
  assumes first: "register n1 o1 s b1 = (r1, s1)" and accepted: "status r1 = 201"
    and later: "reachable L E s1 s2"
    and same: "trim (toString (transactionId b2)) = trim (toString (transactionId b1))"
  shows "snd (register_race n2 o2 s_old s2 b2) = s2
    \<and> (registration_errors b2 = [] \<longrightarrow>
         register n2 o2 s2 b2 = (failure 409
           ''This transaction ID has already been used. Each registration requires a unique payment.'', s2))
    \<and> (register_check s_old b2 = Inr (sanitize_registration b2)
         \<and> (\<forall>p \<in> set (case players b2 of None \<Rightarrow> [] | Some ps \<Rightarrow> ps).
               length (trim (toString (inGameName p))) \<le> 50
               \<and> length (trim (toString (inGameId p))) \<le> 30)
       \<longrightarrow> register_race n2 o2 s_old s2 b2 = (failure 409
           ''This transaction ID has already been used for another registration.'', s2))"
proof -
  from register_accepted_transaction[OF first accepted] same
  have "list_ex (\<lambda>x. reg_transactionId x = trim (toString (transactionId b2))) (registrations s1)"
    by simp
  from reachable_keeps_transaction[OF later this]
  have present: "list_ex (\<lambda>x. reg_transactionId x = trim (toString (transactionId b2))) (registrations s2)" .
  have A: "register n2 o2 s2 b2 = (failure 409
           ''This transaction ID has already been used. Each registration requires a unique payment.'', s2)"
    if valid: "registration_errors b2 = []"
    by (simp add: register_def register_race_def register_check_duplicate[OF valid present])
  have B: "snd (register_race n2 o2 s_old s2 b2) = s2"
    by (rule register_race_duplicate_unchanged[OF present])
  have C: "register_race n2 o2 s_old s2 b2 = (failure 409
           ''This transaction ID has already been used for another registration.'', s2)"
    if chk: "register_check s_old b2 = Inr (sanitize_registration b2)"
      and lens: "\<forall>p \<in> set (case players b2 of None \<Rightarrow> [] | Some ps \<Rightarrow> ps).
               length (trim (toString (inGameName p))) \<le> 50
               \<and> length (trim (toString (inGameId p))) \<le> 30"
  proof -
    from schema_after_route[OF register_check_Inr(2)[OF chk]] lens
    have v: "registration_validate (new_Registration o2 (sanitize_registration b2)) = []" by simp
    have dup: "duplicate_key s2 (new_Registration o2 (sanitize_registration b2))"
      by (rule duplicate_key_transaction) (simp add: new_Registration_fields present)
    show ?thesis
      by (simp add: register_race_def chk register_commit_conflict[OF v check_implies_hook[OF chk] dup])
  qed
  from A B C show ?thesis by blast
qed

theorem C2_duplicate_transaction_conflict_witness:
  "status (fst (register 1000 oid1 empty_store duo_body)) = 201
   \<and> registration_errors duo_body = []
   \<and> status (fst (register 2000 oid2 taken_store duo_body)) = 409
   \<and> snd (register 2000 oid2 taken_store duo_body) = taken_store
   \<and> register_check empty_store duo_body = Inr (sanitize_registration duo_body)
   \<and> register_race 2000 oid2 empty_store taken_store duo_body
       = (failure 409 ''This transaction ID has already been used for another registration.'', taken_store)"
proof -
  have first: "register 1000 oid1 empty_store duo_body
    = (fst (register 1000 oid1 empty_store duo_body), taken_store)"
    by (simp add: taken_store_def)
  have acc: "status (fst (register 1000 oid1 empty_store duo_body)) = 201" by code_simp
  have later: "reachable example_library example_env taken_store taken_store" by (rule reachable.start)
  have valid: "registration_errors duo_body = []" by code_simp
  have chk: "register_check empty_store duo_body = Inr (sanitize_registration duo_body)" by code_simp
  have v: "\<forall>p \<in> set (case players duo_body of None \<Rightarrow> [] | Some ps \<Rightarrow> ps).
      length (trim (toString (inGameName p))) \<le> 50 \<and> length (trim (toString (inGameId p))) \<le> 30"
    by code_simp
  note t = C2_duplicate_transaction_conflict[OF first acc later refl,
      where ?n2.0 = 2000 and ?o2.0 = oid2 and s_old = empty_store]
  from t valid have "register 2000 oid2 taken_store duo_body = (failure 409
           ''This transaction ID has already been used. Each registration requires a unique payment.'', taken_store)"
    by blast
  then have a: "status (fst (register 2000 oid2 taken_store duo_body)) = 409"
    "snd (register 2000 oid2 taken_store duo_body) = taken_store" by simp_all
  from t chk v have "register_race 2000 oid2 empty_store taken_store duo_body
       = (failure 409 ''This transaction ID has already been used for another registration.'', taken_store)"
    by blast
  with a acc valid chk show ?thesis by blast
qed

text \<open>
  Claim C3. For a solo registration: an empty roster is rejected with 400 and nothing is
  stored, and so is a roster of more than five; a roster of one to five players in a
  request that passes the field validation, with names of at most 50 and ids of at most 30
  characters (the schema's limits) and a new transaction and identifier, is accepted with
  201. The stored roster is the
  submitted one in full and in order, every entry cast to the player schema (and equal to the
  submitted entry when that is already in stored form), and \<^verbatim>\<open>playerCount\<close> is the submitted
  length.
\<close>

theorem C3_solo_roster:
  assumes solo: "trim (toString (mode body)) = ''solo''"
  shows "(players body = Some [] \<longrightarrow>
            status (fst (register now oid s body)) = 400 \<and> snd (register now oid s body) = s)
     \<and> (\<forall>ps. players body = Some ps \<and> 5 < length ps \<longrightarrow>
            status (fst (register now oid s body)) = 400 \<and> snd (register now oid s body) = s)
     \<and> (\<forall>ps. players body = Some ps \<and> registration_errors body = []
            \<and> (\<forall>p \<in> set ps. length (trim (toString (inGameName p))) \<le> 50
                  \<and> length (trim (toString (inGameId p))) \<le> 30)
            \<and> \<not> list_ex (\<lambda>r. reg_id r = oid
                  \<or> reg_transactionId r = trim (toString (transactionId body))) (registrations s)
          \<longrightarrow> (\<exists>d rc. register now oid s body = (fst (register now oid s body), s\<lparr>registrations := registrations s @ [d]\<rparr>)
                 \<and> status (fst (register now oid s body)) = 201
                 \<and> data (fst (register now oid s body)) = Receipt rc
                 \<and> playerCount rc = length ps
                 \<and> 1 \<le> length ps \<and> length ps \<le> 5
                 \<and> reg_players d = map (\<lambda>p. cast_player (sanitize_player p)) ps
                 \<and> ((\<forall>p \<in> set ps. cast_player (sanitize_player p) = p) \<longrightarrow> reg_players d = ps)))"
proof -
  have A: "status (fst (register now oid s body)) = 400 \<and> snd (register now oid s body) = s"
    if "players body = Some []"
  proof -
    from that have "registration_errors body \<noteq> []" by (simp add: registration_errors_Nil)
    from register_invalid[OF this] show ?thesis by simp
  qed
  have B: "status (fst (register now oid s body)) = 400 \<and> snd (register now oid s body) = s"
    if "players body = Some ps \<and> 5 < length ps" for ps
  proof -
    from that have "registration_errors body \<noteq> []" by (simp add: registration_errors_Nil)
    from register_invalid[OF this] show ?thesis by simp
  qed
  have C: "\<exists>d rc. register now oid s body = (fst (register now oid s body), s\<lparr>registrations := registrations s @ [d]\<rparr>)
                 \<and> status (fst (register now oid s body)) = 201
                 \<and> data (fst (register now oid s body)) = Receipt rc
                 \<and> playerCount rc = length ps
                 \<and> 1 \<le> length ps \<and> length ps \<le> 5
                 \<and> reg_players d = map (\<lambda>p. cast_player (sanitize_player p)) ps
                 \<and> ((\<forall>p \<in> set ps. cast_player (sanitize_player p) = p) \<longrightarrow> reg_players d = ps)"
    if h: "players body = Some ps \<and> registration_errors body = []
            \<and> (\<forall>p \<in> set ps. length (trim (toString (inGameName p))) \<le> 50
                  \<and> length (trim (toString (inGameId p))) \<le> 30)
            \<and> \<not> list_ex (\<lambda>r. reg_id r = oid
                  \<or> reg_transactionId r = trim (toString (transactionId body))) (registrations s)" for ps
  proof -
    let ?b = "sanitize_registration body"
    let ?d = "(new_Registration oid ?b)\<lparr>reg_createdAt := now, reg_updatedAt := now\<rparr>"
    from h have ps: "players body = Some ps" and ok: "registration_errors body = []"
      and lens: "\<forall>p \<in> set ps. length (trim (toString (inGameName p))) \<le> 50
                  \<and> length (trim (toString (inGameId p))) \<le> 30"
      and fresh: "\<not> list_ex (\<lambda>r. reg_id r = oid
                  \<or> reg_transactionId r = trim (toString (transactionId body))) (registrations s)"
      by simp_all
    from schema_after_route[OF ok] lens ps
    have v: "registration_validate (new_Registration oid ?b) = []" by simp
    from fresh have nd: "\<not> duplicate_key s (new_Registration oid ?b)"
      by (simp add: duplicate_key_def new_Registration_fields)
  from nd have "\<not> list_ex (\<lambda>r. reg_transactionId r = trim (toString (transactionId body))) (registrations s)"
    using duplicate_key_transaction[of "new_Registration oid ?b" s] by (auto simp: new_Registration_fields)
  from register_check_solo[OF solo ok this] have chk: "register_check s body = Inr ?b" .
  from register_commit_saved[OF v check_implies_hook[OF chk] nd] chk
  have run: "register now oid s body = (registered ?d ?b, s\<lparr>registrations := registrations s @ [?d]\<rparr>)"
    by (simp add: register_def register_race_def)
  from ok ps have len: "1 \<le> length ps" "length ps \<le> 5" by (auto simp: registration_errors_Nil)
  have pl: "reg_players ?d = map (\<lambda>p. cast_player (sanitize_player p)) ps"
    by (simp add: new_Registration_fields ps)
  have verb: "reg_players ?d = ps" if "\<forall>p \<in> set ps. cast_player (sanitize_player p) = p"
    unfolding pl using that by (simp add: map_idI)
  have cnt: "playerCount \<lparr>registrationId = reg_id ?d,
       rc_game = toString (game ?b), rc_mode = toString (mode ?b),
       rc_teamName = or_null (teamName ?b),
       playerCount = length (case players ?b of None \<Rightarrow> [] | Some ps \<Rightarrow> ps),
       entryFee = FEE_TABLE (toString (mode ?b)), rc_status = ''pending''\<rparr> = length ps"
    by (simp add: sanitized_fields ps)
  show ?thesis
    apply (rule exI[of _ ?d])
    apply (rule exI[of _ "\<lparr>registrationId = reg_id ?d,
       rc_game = toString (game ?b), rc_mode = toString (mode ?b),
       rc_teamName = or_null (teamName ?b),
       playerCount = length (case players ?b of None \<Rightarrow> [] | Some ps \<Rightarrow> ps),
       entryFee = FEE_TABLE (toString (mode ?b)), rc_status = ''pending''\<rparr>"])
    using len pl verb cnt by (simp add: run registered_fields)
  qed
  from A B C show ?thesis by blast
qed

theorem C3_solo_roster_witness:
  "trim (toString (mode solo_body)) = ''solo''
   \<and> players solo_body = Some [player_A, player_B, player_C]
   \<and> status (fst (register 1000 oid1 empty_store solo_body)) = 201
   \<and> (\<exists>d rc. registrations (snd (register 1000 oid1 empty_store solo_body)) = [d]
         \<and> data (fst (register 1000 oid1 empty_store solo_body)) = Receipt rc
         \<and> playerCount rc = 3 \<and> reg_players d = [player_A, player_B, player_C])
   \<and> status (fst (register 1000 oid1 empty_store (solo_body\<lparr>players := Some []\<rparr>))) = 400"
proof -
  let ?R = "register 1000 oid1 empty_store solo_body"
  have solo: "trim (toString (mode solo_body)) = ''solo''" by code_simp
  have solo': "trim (toString (mode (solo_body\<lparr>players := Some []\<rparr>))) = ''solo''" by code_simp
  have ps: "players solo_body = Some [player_A, player_B, player_C]" by code_simp
  have ok: "registration_errors solo_body = []" by code_simp
  have v: "\<forall>p \<in> set [player_A, player_B, player_C].
      length (trim (toString (inGameName p))) \<le> 50 \<and> length (trim (toString (inGameId p))) \<le> 30"
    by code_simp
  have nd: "\<not> list_ex (\<lambda>r. reg_id r = oid1
      \<or> reg_transactionId r = trim (toString (transactionId solo_body))) (registrations empty_store)"
    by code_simp
  have canon: "\<forall>p \<in> set [player_A, player_B, player_C]. cast_player (sanitize_player p) = p"
    by code_simp
  have e: "registrations empty_store = []" by (simp add: empty_store_def)
  have p0: "players (solo_body\<lparr>players := Some []\<rparr>) = Some []" by simp
  note t = C3_solo_roster[OF solo, where now = 1000 and oid = oid1 and s = empty_store]
  from t ps ok v nd obtain d rc where
    h: "?R = (fst ?R, empty_store\<lparr>registrations := registrations empty_store @ [d]\<rparr>)"
      "status (fst ?R) = 201" "data (fst ?R) = Receipt rc" "playerCount rc = length [player_A, player_B, player_C]"
      "reg_players d = map (\<lambda>p. cast_player (sanitize_player p)) [player_A, player_B, player_C]"
      "(\<forall>p \<in> set [player_A, player_B, player_C]. cast_player (sanitize_player p) = p)
         \<longrightarrow> reg_players d = [player_A, player_B, player_C]"
    by blast
  from h(1) have "snd ?R = empty_store\<lparr>registrations := registrations empty_store @ [d]\<rparr>"
    by (metis snd_conv)
  then have one: "registrations (snd ?R) = [d]" by (simp add: e)
  from h(6) canon have pl: "reg_players d = [player_A, player_B, player_C]" by blast
  from h(4) have cnt: "playerCount rc = 3" by simp
  from one h(3) cnt pl have ex: "\<exists>d rc. registrations (snd ?R) = [d] \<and> data (fst ?R) = Receipt rc
         \<and> playerCount rc = 3 \<and> reg_players d = [player_A, player_B, player_C]" by blast
  from C3_solo_roster[OF solo', where now = 1000 and oid = oid1 and s = empty_store] p0
  have "status (fst (register 1000 oid1 empty_store (solo_body\<lparr>players := Some []\<rparr>))) = 400"
    by blast
  with solo ps h(2) ex show ?thesis by blast
qed

text \<open>
  Claim C4, as amended. The duplicate lookup comes before the roster and team-name checks but
  after the field validation. A request that passes the field validation (so its roster has
  one to five entries) and reuses a persisted transaction id is answered 409 and changes
  nothing, also when its roster is shorter than its mode requires or its team name is
  missing: the same request with a fresh transaction id is answered 400 by those checks.
\<close>

theorem C4_duplicate_before_roster:
  assumes valid: "registration_errors body = []"
    and reused: "list_ex (\<lambda>x. reg_transactionId x = trim (toString (transactionId body))) (registrations s)"
  shows "register now oid s body = (failure 409
           ''This transaction ID has already been used. Each registration requires a unique payment.'', s)
    \<and> (\<not> list_ex (\<lambda>x. reg_transactionId x = trim (toString (transactionId body))) (registrations s0)
         \<and> ((\<exists>e. PLAYER_COUNT (trim (toString (mode body))) = Some e
                  \<and> length (case players body of None \<Rightarrow> [] | Some ps \<Rightarrow> ps) < e)
              \<or> (trim (toString (mode body)) = ''duo'' \<or> trim (toString (mode body)) = ''squad'')
                  \<and> falsy (teamName (sanitize_registration body)))
       \<longrightarrow> status (fst (register now oid s0 body)) = 400 \<and> snd (register now oid s0 body) = s0)"
proof -
  have A: "register now oid s body = (failure 409
           ''This transaction ID has already been used. Each registration requires a unique payment.'', s)"
    by (simp add: register_def register_race_def register_check_duplicate[OF valid reused])
  have B: "status (fst (register now oid s0 body)) = 400 \<and> snd (register now oid s0 body) = s0"
    if h: "\<not> list_ex (\<lambda>x. reg_transactionId x = trim (toString (transactionId body))) (registrations s0)
         \<and> ((\<exists>e. PLAYER_COUNT (trim (toString (mode body))) = Some e
                  \<and> length (case players body of None \<Rightarrow> [] | Some ps \<Rightarrow> ps) < e)
              \<or> (trim (toString (mode body)) = ''duo'' \<or> trim (toString (mode body)) = ''squad'')
                  \<and> falsy (teamName (sanitize_registration body)))"
  proof (cases "case PLAYER_COUNT (trim (toString (mode body))) of None \<Rightarrow> False
               | Some e \<Rightarrow> length (case players body of None \<Rightarrow> [] | Some ps \<Rightarrow> ps) < e")
    case True
    with h valid have "\<exists>r. register_check s0 body = Inl r \<and> status r = 400"
      by (simp add: register_check_eq)
    then show ?thesis by (auto simp: register_def register_race_def)
  next
    case False
    with h have "(trim (toString (mode body)) = ''duo'' \<or> trim (toString (mode body)) = ''squad'')
                  \<and> falsy (teamName (sanitize_registration body))"
      by auto
    with False h valid have "\<exists>r. register_check s0 body = Inl r \<and> status r = 400"
      by (simp add: register_check_eq)
    then show ?thesis by (auto simp: register_def register_race_def)
  qed
  from A B show ?thesis by blast
qed

theorem C4_duplicate_before_roster_witness:
  "registration_errors short_duo_body = []
   \<and> PLAYER_COUNT (trim (toString (mode short_duo_body))) = Some 2
   \<and> length (case players short_duo_body of None \<Rightarrow> [] | Some ps \<Rightarrow> ps) = 1
   \<and> status (fst (register 2000 oid2 taken_store short_duo_body)) = 409
   \<and> snd (register 2000 oid2 taken_store short_duo_body) = taken_store
   \<and> status (fst (register 2000 oid2 empty_store short_duo_body)) = 400"
proof -
  have valid: "registration_errors short_duo_body = []" by code_simp
  have reused: "list_ex (\<lambda>x. reg_transactionId x = trim (toString (transactionId short_duo_body)))
     (registrations taken_store)" by code_simp
  have fresh: "\<not> list_ex (\<lambda>x. reg_transactionId x = trim (toString (transactionId short_duo_body)))
     (registrations empty_store)" by code_simp
  have need: "PLAYER_COUNT (trim (toString (mode short_duo_body))) = Some 2" by code_simp
  have got: "length (case players short_duo_body of None \<Rightarrow> [] | Some ps \<Rightarrow> ps) = 1" by code_simp
  from need got have short: "\<exists>e. PLAYER_COUNT (trim (toString (mode short_duo_body))) = Some e
      \<and> length (case players short_duo_body of None \<Rightarrow> [] | Some ps \<Rightarrow> ps) < e" by simp
  note t = C4_duplicate_before_roster[OF valid reused, where now = 2000 and oid = oid2 and ?s0.0 = empty_store]
  from t have "register 2000 oid2 taken_store short_duo_body = (failure 409
           ''This transaction ID has already been used. Each registration requires a unique payment.'', taken_store)"
    by blast
  then have a: "status (fst (register 2000 oid2 taken_store short_duo_body)) = 409"
    "snd (register 2000 oid2 taken_store short_duo_body) = taken_store" by simp_all
  from t fresh short have "status (fst (register 2000 oid2 empty_store short_duo_body)) = 400"
    by blast
  with a valid need got show ?thesis by blast
qed

text \<open>
  The claim as it was stated fails on a roster of length 0: the solo request
  \<open>empty_roster_body\<close> reuses the transaction id stored in \<open>taken_store\<close> and has fewer
  players than solo requires, and it is answered 400 by the field validation, not 409.
\<close>

theorem C4_duplicate_before_roster_counterexample:
  "map reg_transactionId (registrations taken_store) = [''UPI000111222'']
   \<and> trim (toString (transactionId empty_roster_body)) = ''UPI000111222''
   \<and> trim (toString (mode empty_roster_body)) = ''solo''
   \<and> PLAYER_COUNT ''solo'' = Some 1
   \<and> players empty_roster_body = Some []
   \<and> status (fst (register 2000 oid2 taken_store empty_roster_body)) = 400
   \<and> errors (fst (register 2000 oid2 taken_store empty_roster_body)) = Some [players_msg]
   \<and> snd (register 2000 oid2 taken_store empty_roster_body) = taken_store"
  by (intro conjI; code_simp)

text \<open>
  Claim C5 (a login that fails is answered 401 \<^verbatim>\<open>Invalid email or password.\<close> whether the
  address is unknown or the password is wrong, so the caller cannot tell the two apart).
  The service breaks it on a password that is not a string. The body
  \<^verbatim>\<open>{"email": ..., "password": 123}\<close> passes the input validation for both addresses, and
  123 is not the administrator's password. With the administrator's address the handler
  reaches \<^verbatim>\<open>bcrypt.compare\<close>, which rejects the number, and its \<^verbatim>\<open>catch\<close> answers 500
  \<^verbatim>\<open>Login failed. Please try again.\<close>; with an unknown address it answers 401
  \<^verbatim>\<open>Invalid email or password.\<close>. The two answers differ: they tell the caller that the
  address exists. Neither request changes the store.
\<close>

theorem C5_login_failure_distinguishable:
  "login_errors example_library number_login = []
   \<and> login_errors example_library number_login_unknown = []
   \<and> lb_password number_login = lb_password number_login_unknown
   \<and> Admin_findOne admin_store (login_email example_library number_login) = Some example_admin
   \<and> Admin_findOne admin_store (login_email example_library number_login_unknown) = None
   \<and> comparePassword example_library example_admin (lb_password number_login)
       = Inl (Error ''Illegal arguments: number, string'')
   \<and> login example_library example_env 5000 admin_store number_login
       = (failure 500 ''Login failed. Please try again.'', admin_store)
   \<and> login example_library example_env 5000 admin_store number_login_unknown
       = (failure 401 ''Invalid email or password.'', admin_store)"
proof -
  have valid: "login_errors example_library number_login = []" by code_simp
  have valid': "login_errors example_library number_login_unknown = []" by code_simp
  have same: "lb_password number_login = lb_password number_login_unknown"
    by (simp add: number_login_def number_login_unknown_def)
  have known: "Admin_findOne admin_store (login_email example_library number_login) = Some example_admin"
    by code_simp
  have unknown: "Admin_findOne admin_store (login_email example_library number_login_unknown) = None"
    by code_simp
  have number: "lb_password number_login \<noteq> Some (JStr p)" for p
    by (simp add: number_login_def)
  have rejected: "comparePassword example_library example_admin (lb_password number_login)
       = Inl (Error ''Illegal arguments: number, string'')"
    by (simp add: comparePassword_def number_login_def typeof_def)
  have a: "login example_library example_env 5000 admin_store number_login
       = (failure 500 ''Login failed. Please try again.'', admin_store)"
    using login_not_string[OF valid known number] by (simp add: login_failed_def)
  have b: "login example_library example_env 5000 admin_store number_login_unknown
       = (failure 401 ''Invalid email or password.'', admin_store)"
    using login_unknown[OF valid' unknown] by (simp add: invalid_credentials_def)
  from valid valid' same known unknown rejected a b show ?thesis by simp
qed

text \<open>
  Claim C6. A token issued at \<open>T\<close> (milliseconds) carries the expiry \<open>iat + 7 days\<close>.
  Verification accepts it at \<open>T\<close> + 6 days and throws \<^verbatim>\<open>TokenExpiredError\<close> at \<open>T\<close> + 8 days; it
  accepts it exactly while the clock in seconds is below the expiry. Presented as a bearer
  token, the middleware answers 401 \<^verbatim>\<open>Token expired. Please login again.\<close> at \<open>T\<close> + 8 days
  and lets the request through at \<open>T\<close> + 6 days when the administrator exists.
\<close>

theorem C6_token_lifetime:
  assumes issued: "generateToken E T aid = Inr tok"
  shows "\<exists>c. jwt_id c = aid \<and> iat c = T div 1000 \<and> exp c = iat c + 7 * 24 * 60 * 60
     \<and> jwt_verify tok (JWT_SECRET E) (T + 6 * (24 * 60 * 60 * 1000)) = Inr c
     \<and> jwt_verify tok (JWT_SECRET E) (T + 8 * (24 * 60 * 60 * 1000)) = Inl (TokenExpiredError ''jwt expired'')
     \<and> (jwt_verify tok (JWT_SECRET E) t = Inr c \<longleftrightarrow> t div 1000 < T div 1000 + 7 * 24 * 60 * 60)
     \<and> (bearer_token h = Some w \<and> w \<noteq> [] \<and> jwt_decode L w = tok \<longrightarrow>
          protect L E (T + 8 * (24 * 60 * 60 * 1000)) s h
            = Inl (failure 401 ''Token expired. Please login again.'')
          \<and> (\<forall>a. Admin_findById s aid = Inr (Some a) \<longrightarrow>
                protect L E (T + 6 * (24 * 60 * 60 * 1000)) s h = Inr a))"
proof -
  let ?c = "\<lparr>jwt_id = aid, iat = T div 1000, exp = T div 1000 + 604800\<rparr>"
  note v = jwt_verify_issued[OF issued]
  have six: "(T + 6 * (24 * 60 * 60 * 1000)) div 1000 = T div 1000 + 518400" by simp
  have eight: "(T + 8 * (24 * 60 * 60 * 1000)) div 1000 = T div 1000 + 691200" by simp
  have v6: "jwt_verify tok (JWT_SECRET E) (T + 6 * (24 * 60 * 60 * 1000)) = Inr ?c"
    unfolding v six by simp
  have v8: "jwt_verify tok (JWT_SECRET E) (T + 8 * (24 * 60 * 60 * 1000)) = Inl (TokenExpiredError ''jwt expired'')"
    unfolding v eight by simp
  have life: "jwt_verify tok (JWT_SECRET E) t = Inr ?c \<longleftrightarrow> t div 1000 < T div 1000 + 7 * 24 * 60 * 60"
    unfolding v by simp
  have guard: "protect L E (T + 8 * (24 * 60 * 60 * 1000)) s h
            = Inl (failure 401 ''Token expired. Please login again.'')
          \<and> (\<forall>a. Admin_findById s aid = Inr (Some a) \<longrightarrow>
                protect L E (T + 6 * (24 * 60 * 60 * 1000)) s h = Inr a)"
    if h: "bearer_token h = Some w \<and> w \<noteq> [] \<and> jwt_decode L w = tok"
  proof -
    from h have nf: "\<not> falsy (bearer_token h)" and d: "jwt_decode L (toString (bearer_token h)) = tok"
      by simp_all
    have "protect L E (T + 8 * (24 * 60 * 60 * 1000)) s h = Inl (protect_catch (TokenExpiredError ''jwt expired''))"
      by (rule protect_rejected_token[OF nf]) (simp only: d v8)
    then have 1: "protect L E (T + 8 * (24 * 60 * 60 * 1000)) s h
            = Inl (failure 401 ''Token expired. Please login again.'')"
      by (simp add: protect_catch_def error_name_def)
    have 2: "protect L E (T + 6 * (24 * 60 * 60 * 1000)) s h = Inr a"
      if "Admin_findById s aid = Inr (Some a)" for a
      by (rule protect_found[OF nf, where c = ?c]) (simp_all only: d v6 that claims.simps)
    from 1 2 show ?thesis by blast
  qed
  show ?thesis
    apply (rule exI[of _ ?c])
    using v6 v8 life guard by simp
qed

theorem C6_token_lifetime_witness:
  "generateToken example_env 1700000000000 oid1 = Inr example_token
   \<and> bearer_token (Some ''Bearer header.payload.signature'') = Some ''header.payload.signature''
   \<and> (\<exists>c. jwt_verify example_token (JWT_SECRET example_env) (1700000000000 + 6 * (24 * 60 * 60 * 1000)) = Inr c
         \<and> jwt_id c = oid1 \<and> exp c = 1700000000 + 604800)
   \<and> jwt_verify example_token (JWT_SECRET example_env) (1700000000000 + 8 * (24 * 60 * 60 * 1000))
       = Inl (TokenExpiredError ''jwt expired'')
   \<and> protect example_library example_env (1700000000000 + 8 * (24 * 60 * 60 * 1000)) admin_store
        (Some ''Bearer header.payload.signature'')
       = Inl (failure 401 ''Token expired. Please login again.'')
   \<and> protect example_library example_env (1700000000000 + 6 * (24 * 60 * 60 * 1000)) admin_store
        (Some ''Bearer header.payload.signature'') = Inr example_admin"
proof -
  have issued: "generateToken example_env 1700000000000 oid1 = Inr example_token"
    by (simp add: generateToken_def jwt_sign_def seven_days_def example_env_def example_token_def)
  have bearer: "bearer_token (Some ''Bearer header.payload.signature'') = Some ''header.payload.signature''"
    by code_simp
  have decoded: "jwt_decode example_library ''header.payload.signature'' = example_token"
    by (simp add: example_library_def)
  have found: "Admin_findById admin_store oid1 = Inr (Some example_admin)" by code_simp
  have T: "(1700000000000::nat) div 1000 = 1700000000" by simp
  from C6_token_lifetime[OF issued, where h = "Some ''Bearer header.payload.signature''"
      and w = "''header.payload.signature''" and L = example_library and s = admin_store
      and t = 0]
  obtain c where h: "jwt_id c = oid1" "iat c = 1700000000000 div 1000" "exp c = iat c + 7 * 24 * 60 * 60"
    "jwt_verify example_token (JWT_SECRET example_env) (1700000000000 + 6 * (24 * 60 * 60 * 1000)) = Inr c"
    "jwt_verify example_token (JWT_SECRET example_env) (1700000000000 + 8 * (24 * 60 * 60 * 1000))
       = Inl (TokenExpiredError ''jwt expired'')"
    "bearer_token (Some ''Bearer header.payload.signature'') = Some ''header.payload.signature''
       \<and> ''header.payload.signature'' \<noteq> [] \<and> jwt_decode example_library ''header.payload.signature'' = example_token
     \<longrightarrow> protect example_library example_env (1700000000000 + 8 * (24 * 60 * 60 * 1000)) admin_store
            (Some ''Bearer header.payload.signature'')
            = Inl (failure 401 ''Token expired. Please login again.'')
          \<and> (\<forall>a. Admin_findById admin_store oid1 = Inr (Some a) \<longrightarrow>
                protect example_library example_env (1700000000000 + 6 * (24 * 60 * 60 * 1000)) admin_store
                  (Some ''Bearer header.payload.signature'') = Inr a)"
    by blast
  from h(2,3) have e: "exp c = 1700000000 + 604800" by simp
  from h(6) bearer decoded found
  have p: "protect example_library example_env (1700000000000 + 8 * (24 * 60 * 60 * 1000)) admin_store
            (Some ''Bearer header.payload.signature'')
            = Inl (failure 401 ''Token expired. Please login again.'')"
    "protect example_library example_env (1700000000000 + 6 * (24 * 60 * 60 * 1000)) admin_store
                  (Some ''Bearer header.payload.signature'') = Inr example_admin"
    by simp_all
  from h(1,4) e have "\<exists>c. jwt_verify example_token (JWT_SECRET example_env) (1700000000000 + 6 * (24 * 60 * 60 * 1000)) = Inr c
         \<and> jwt_id c = oid1 \<and> exp c = 1700000000 + 604800" by blast
  with issued bearer h(5) p show ?thesis by blast
qed

text \<open>
  Claim C7. The revenue of the statistics is the sum of \<^verbatim>\<open>entryFee\<close> over the registrations
  whose status is \<^verbatim>\<open>approved\<close>, and over those only: a registration with any other status
  (pending, rejected) adds nothing, whatever its fee. The route answers with that sum.
\<close>

theorem C7_revenue_approved_only:
  "totalRevenue rs = sum_list (map (\<lambda>r. case reg_entryFee r of None \<Rightarrow> 0 | Some f \<Rightarrow> f)
                        (filter (\<lambda>r. reg_status r = ''approved'') rs))
   \<and> (reg_status r \<noteq> ''approved'' \<longrightarrow> totalRevenue (xs @ r # ys) = totalRevenue (xs @ ys))
   \<and> (protect L E now s h = Inr a \<longrightarrow>
        (\<exists>st. data (fst (admin_route L E now s h GetStats)) = StatsData st
           \<and> revenue st = totalRevenue (registrations s)))"
proof -
  have 2: "totalRevenue (xs @ r # ys) = totalRevenue (xs @ ys)" if "reg_status r \<noteq> ''approved''"
    using that by (simp add: totalRevenue_sum)
  have 3: "\<exists>st. data (fst (admin_route L E now s h GetStats)) = StatsData st
           \<and> revenue st = totalRevenue (registrations s)"
    if "protect L E now s h = Inr a"
    using that by (simp add: admin_route_def admin_handler_def get_stats_def ok_def)
  from totalRevenue_sum 2 3 show ?thesis by blast
qed

theorem C7_revenue_approved_only_witness:
  "reg_status pending_registration = ''pending'' \<and> reg_entryFee pending_registration = Some 20
   \<and> totalRevenue [approved_registration, pending_registration] = 10
   \<and> totalRevenue [approved_registration, pending_registration] = totalRevenue [approved_registration]
   \<and> protect example_library example_env 1700000001000 admin_store
        (Some ''Bearer header.payload.signature'') = Inr example_admin
   \<and> (\<exists>st. data (fst (admin_route example_library example_env 1700000001000 admin_store
                (Some ''Bearer header.payload.signature'') GetStats)) = StatsData st
         \<and> revenue st = 10)"
proof -
  have st: "reg_status pending_registration = ''pending''" by code_simp
  have fee: "reg_entryFee pending_registration = Some 20" by code_simp
  have ne: "reg_status pending_registration \<noteq> ''approved''" by code_simp
  have sum: "sum_list (map (\<lambda>r. case reg_entryFee r of None \<Rightarrow> 0 | Some f \<Rightarrow> f)
       (filter (\<lambda>r. reg_status r = ''approved'') [approved_registration, pending_registration])) = 10"
    by code_simp
  have bearer: "bearer_token (Some ''Bearer header.payload.signature'') = Some ''header.payload.signature''"
    by code_simp
  have decoded: "jwt_decode example_library ''header.payload.signature'' = example_token"
    by (simp add: example_library_def)
  have found: "Admin_findById admin_store oid1 = Inr (Some example_admin)" by code_simp
  have verified: "jwt_verify example_token (JWT_SECRET example_env) 1700000001000
      = Inr \<lparr>jwt_id = oid1, iat = 1700000000, exp = 1700604800\<rparr>"
    by (simp add: jwt_verify_def example_token_def example_env_def)
  have auth: "protect example_library example_env 1700000001000 admin_store
        (Some ''Bearer header.payload.signature'') = Inr example_admin"
    by (rule protect_found[where c = "\<lparr>jwt_id = oid1, iat = 1700000000, exp = 1700604800\<rparr>"])
       (simp_all add: bearer decoded verified found)
  have regs: "registrations admin_store = [approved_registration, pending_registration]"
    by (simp add: admin_store_def)
  note t = C7_revenue_approved_only[where rs = "[approved_registration, pending_registration]"
      and r = pending_registration and xs = "[approved_registration]" and ys = "[]"
      and L = example_library and E = example_env and now = 1700000001000 and s = admin_store
      and h = "Some ''Bearer header.payload.signature''" and a = example_admin]
  from t sum have a: "totalRevenue [approved_registration, pending_registration] = 10" by simp
  from t ne have b: "totalRevenue [approved_registration, pending_registration] = totalRevenue [approved_registration]"
    by simp
  from t auth have "\<exists>st. data (fst (admin_route example_library example_env 1700000001000 admin_store
                (Some ''Bearer header.payload.signature'') GetStats)) = StatsData st
         \<and> revenue st = totalRevenue (registrations admin_store)" by blast
  with a regs have c: "\<exists>st. data (fst (admin_route example_library example_env 1700000001000 admin_store
                (Some ''Bearer header.payload.signature'') GetStats)) = StatsData st
         \<and> revenue st = 10" by simp
  from st fee a b auth c show ?thesis by blast
qed

text \<open>
  Claim C8. Validation is not cut short at the first failure. A registration or a contact
  message with any failing field is answered 400 with the list of all messages of all rules,
  and that list holds a message for every field that fails, whatever the other fields are:
  the game, the mode, the team name, the roster, each player's name, id and phone, the
  transaction id; the contact's name, address, subject and message.
\<close>

theorem C8_all_failures_reported:
  "(registration_errors body \<noteq> [] \<longrightarrow>
      register now oid s body = (validation_failed (registration_errors body), s)
      \<and> status (validation_failed (registration_errors body)) = 400
      \<and> errors (validation_failed (registration_errors body)) = Some (registration_errors body))
   \<and> (trim (toString (game body)) \<notin> set [''pubg'', ''freefire'', ''cod'']
        \<longrightarrow> ''Invalid game selection'' \<in> set (registration_errors body))
   \<and> (trim (toString (mode body)) \<notin> set [''solo'', ''duo'', ''squad'']
        \<longrightarrow> ''Invalid mode selection'' \<in> set (registration_errors body))
   \<and> (50 < length (trim (toString (teamName body)))
        \<longrightarrow> ''Team name cannot exceed 50 characters'' \<in> set (registration_errors body))
   \<and> (\<not> isArray 1 5 (players body) \<longrightarrow> players_msg \<in> set (registration_errors body))
   \<and> (\<forall>ps p. players body = Some ps \<and> p \<in> set ps \<and> trim (toString (inGameName p)) = []
        \<longrightarrow> ''In-game name is required for all players'' \<in> set (registration_errors body))
   \<and> (\<forall>ps p. players body = Some ps \<and> p \<in> set ps \<and> trim (toString (inGameId p)) = []
        \<longrightarrow> ''In-game ID is required for all players'' \<in> set (registration_errors body))
   \<and> (\<forall>ps p. players body = Some ps \<and> p \<in> set ps \<and> trim (toString (phone p)) = []
        \<longrightarrow> ''Phone number is required for all players'' \<in> set (registration_errors body))
   \<and> (length (trim (toString (transactionId body))) < 5
        \<longrightarrow> ''Transaction ID must be at least 5 characters'' \<in> set (registration_errors body))
   \<and> (contact_errors L cbody \<noteq> [] \<longrightarrow>
        submit_contact L now oid s cbody = (validation_failed (contact_errors L cbody), s))
   \<and> (length (trim (toString (cb_name cbody))) < 2 \<or> 100 < length (trim (toString (cb_name cbody)))
        \<longrightarrow> ''Name must be 2'' @ en_dash @ ''100 characters'' \<in> set (contact_errors L cbody))
   \<and> (trim (toString (cb_email cbody)) = []
        \<longrightarrow> ''Email is required'' \<in> set (contact_errors L cbody))
   \<and> (\<not> isEmail L (trim (toString (cb_email cbody)))
        \<longrightarrow> ''Invalid email format'' \<in> set (contact_errors L cbody))
   \<and> (trim (toString (cb_subject cbody)) \<notin> set subjects
        \<longrightarrow> ''Invalid subject category'' \<in> set (contact_errors L cbody))
   \<and> (length (trim (toString (cb_message cbody))) < 10 \<or> 2000 < length (trim (toString (cb_message cbody)))
        \<longrightarrow> ''Message must be 10'' @ en_dash @ ''2000 characters'' \<in> set (contact_errors L cbody))"
proof -
  have c1: "(registration_errors body \<noteq> [] \<longrightarrow>
      register now oid s body = (validation_failed (registration_errors body), s)
      \<and> status (validation_failed (registration_errors body)) = 400
      \<and> errors (validation_failed (registration_errors body)) = Some (registration_errors body))"
    by (simp add: register_invalid)
  have c2: "(trim (toString (game body)) \<notin> set [''pubg'', ''freefire'', ''cod'']
        \<longrightarrow> ''Invalid game selection'' \<in> set (registration_errors body))"
    by (rule impI) (rule game_reported)
  have c3: "(trim (toString (mode body)) \<notin> set [''solo'', ''duo'', ''squad'']
        \<longrightarrow> ''Invalid mode selection'' \<in> set (registration_errors body))"
    by (rule impI) (rule mode_reported)
  have c4: "(50 < length (trim (toString (teamName body)))
        \<longrightarrow> ''Team name cannot exceed 50 characters'' \<in> set (registration_errors body))"
    by (rule impI) (rule teamName_reported)
  have c5: "(\<not> isArray 1 5 (players body) \<longrightarrow> players_msg \<in> set (registration_errors body))"
    by (rule impI) (rule players_reported)
  have c6: "(\<forall>ps p. players body = Some ps \<and> p \<in> set ps \<and> trim (toString (inGameName p)) = []
        \<longrightarrow> ''In-game name is required for all players'' \<in> set (registration_errors body))"
    using inGameName_reported[of body] by blast
  have c7: "(\<forall>ps p. players body = Some ps \<and> p \<in> set ps \<and> trim (toString (inGameId p)) = []
        \<longrightarrow> ''In-game ID is required for all players'' \<in> set (registration_errors body))"
    using inGameId_reported[of body] by blast
  have c8: "(\<forall>ps p. players body = Some ps \<and> p \<in> set ps \<and> trim (toString (phone p)) = []
        \<longrightarrow> ''Phone number is required for all players'' \<in> set (registration_errors body))"
    using phone_reported[of body] by blast
  have c9: "(length (trim (toString (transactionId body))) < 5
        \<longrightarrow> ''Transaction ID must be at least 5 characters'' \<in> set (registration_errors body))"
    by (rule impI) (rule transactionId_reported)
  have c10: "(contact_errors L cbody \<noteq> [] \<longrightarrow>
        submit_contact L now oid s cbody = (validation_failed (contact_errors L cbody), s))"
    by (rule impI) (rule submit_contact_invalid)
  have c11: "(length (trim (toString (cb_name cbody))) < 2 \<or> 100 < length (trim (toString (cb_name cbody)))
        \<longrightarrow> ''Name must be 2'' @ en_dash @ ''100 characters'' \<in> set (contact_errors L cbody))"
    by (rule impI) (rule name_reported)
  have c12: "(trim (toString (cb_email cbody)) = []
        \<longrightarrow> ''Email is required'' \<in> set (contact_errors L cbody))"
    by (rule impI) (rule email_required_reported)
  have c13: "(\<not> isEmail L (trim (toString (cb_email cbody)))
        \<longrightarrow> ''Invalid email format'' \<in> set (contact_errors L cbody))"
    by (rule impI) (rule email_reported)
  have c14: "(trim (toString (cb_subject cbody)) \<notin> set subjects
        \<longrightarrow> ''Invalid subject category'' \<in> set (contact_errors L cbody))"
    by (rule impI) (rule subject_reported)
  have c15: "(length (trim (toString (cb_message cbody))) < 10 \<or> 2000 < length (trim (toString (cb_message cbody)))
        \<longrightarrow> ''Message must be 10'' @ en_dash @ ''2000 characters'' \<in> set (contact_errors L cbody))"
    by (rule impI) (rule message_reported)
  show ?thesis
    by (intro conjI) (fact c1 c2 c3 c4 c5 c6 c7 c8 c9 c10 c11 c12 c13 c14 c15)+
qed

theorem C8_all_failures_reported_witness:
  "register 1000 oid1 empty_store faulty_body
     = (validation_failed (registration_errors faulty_body), empty_store)
   \<and> registration_errors faulty_body = [''Invalid game selection'',
        ''In-game name is required for all players'',
        ''Transaction ID must be at least 5 characters'']
   \<and> submit_contact example_library 1000 oid1 empty_store faulty_contact
     = (validation_failed (contact_errors example_library faulty_contact), empty_store)
   \<and> contact_errors example_library faulty_contact
     = [''Name must be 2'' @ en_dash @ ''100 characters'', ''Invalid email format'']"
proof -
  have g: "trim (toString (game faulty_body)) \<notin> set [''pubg'', ''freefire'', ''cod'']" by code_simp
  have es: "registration_errors faulty_body = [''Invalid game selection'',
        ''In-game name is required for all players'',
        ''Transaction ID must be at least 5 characters'']" by code_simp
  have e: "\<not> isEmail example_library (trim (toString (cb_email faulty_contact)))" by code_simp
  have cs: "contact_errors example_library faulty_contact
     = [''Name must be 2'' @ en_dash @ ''100 characters'', ''Invalid email format'']" by code_simp
  note t = C8_all_failures_reported[where body = faulty_body and cbody = faulty_contact
      and L = example_library and now = 1000 and oid = oid1 and s = empty_store]
  from t g have "''Invalid game selection'' \<in> set (registration_errors faulty_body)" by blast
  then have "registration_errors faulty_body \<noteq> []" by auto
  with t have a: "register 1000 oid1 empty_store faulty_body
     = (validation_failed (registration_errors faulty_body), empty_store)" by blast
  from t e have "''Invalid email format'' \<in> set (contact_errors example_library faulty_contact)" by blast
  then have "contact_errors example_library faulty_contact \<noteq> []" by auto
  with t have b: "submit_contact example_library 1000 oid1 empty_store faulty_contact
     = (validation_failed (contact_errors example_library faulty_contact), empty_store)" by blast
  from a es b cs show ?thesis by blast
qed

text \<open>
  Claim C9. A request to any route of the administrator (me, stats, list, update and delete
  contacts, list and update registrations) whose bearer token is missing, or is refused by
  the verification (invalid or expired), or names an administrator that does not exist, is
  answered 401 and leaves the store as it was; the answer is the same whatever contacts and
  registrations the store holds, so none of them was read.
\<close>

theorem C9_unauthorized_before_data:
  assumes "falsy (bearer_token h)
     \<or> (\<exists>e. jwt_verify (jwt_decode L (toString (bearer_token h))) (JWT_SECRET E) now = Inl e)
     \<or> (\<exists>c. jwt_verify (jwt_decode L (toString (bearer_token h))) (JWT_SECRET E) now = Inr c
            \<and> Admin_findById s (jwt_id c) = Inr None)"
  shows "status (fst (admin_route L E now s h op)) = 401
     \<and> snd (admin_route L E now s h op) = s
     \<and> fst (admin_route L E now (s\<lparr>contacts := cs, registrations := rs\<rparr>) h op)
         = fst (admin_route L E now s h op)"
proof -
  from protect_unauthorized[OF assms] obtain r where
    r: "protect L E now s h = Inl r" "status r = 401" by blast
  have "protect L E now (s\<lparr>contacts := cs, registrations := rs\<rparr>) h = protect L E now s h"
    by (rule protect_admins) simp
  with r show ?thesis by (simp add: admin_route_def)
qed

theorem C9_unauthorized_before_data_witness:
  "bearer_token None = None
   \<and> status (fst (admin_route example_library example_env 5000 admin_store None
        (PatchRegistration oid2 (Some ''approved'')))) = 401
   \<and> snd (admin_route example_library example_env 5000 admin_store None
        (PatchRegistration oid2 (Some ''approved''))) = admin_store
   \<and> bearer_token (Some ''Bearer forged'') = Some ''forged''
   \<and> status (fst (admin_route example_library example_env 5000 admin_store (Some ''Bearer forged'')
        (DeleteContact oid1))) = 401"
proof -
  have none: "bearer_token None = None" by code_simp
  have forged: "bearer_token (Some ''Bearer forged'') = Some ''forged''" by code_simp
  have bad: "jwt_verify (jwt_decode example_library (toString (bearer_token (Some ''Bearer forged''))))
       (JWT_SECRET example_env) 5000 = Inl (JsonWebTokenError ''jwt malformed'')"
    by (simp add: forged example_library_def jwt_verify_def)
  from none have missing: "falsy (bearer_token None)" by simp
  from C9_unauthorized_before_data[where h = None and L = example_library and E = example_env
      and now = 5000 and s = admin_store and op = "PatchRegistration oid2 (Some ''approved'')"]
    missing
  have a: "status (fst (admin_route example_library example_env 5000 admin_store None
        (PatchRegistration oid2 (Some ''approved'')))) = 401"
    "snd (admin_route example_library example_env 5000 admin_store None
        (PatchRegistration oid2 (Some ''approved''))) = admin_store" by blast+
  from C9_unauthorized_before_data[where h = "Some ''Bearer forged''" and L = example_library
      and E = example_env and now = 5000 and s = admin_store and op = "DeleteContact oid1"]
    bad
  have b: "status (fst (admin_route example_library example_env 5000 admin_store (Some ''Bearer forged'')
        (DeleteContact oid1))) = 401" by blast
  from none forged a b show ?thesis by blast
qed

text \<open>
  Claim C10. Every registration in the store has at least as many players as its mode
  requires (solo 1, duo 2, squad 4) and, for a duo or a squad, a non-empty team name. A save
  that succeeds stores such a registration and a save of any other fails, by the schema's
  hook alone (for a document with a valid mode the hook returns exactly when the property
  holds); the only other write to a registration, the administrator's status update, leaves
  roster, mode and team name as they are. So the property holds in every store the service
  can reach from one where it holds, under any interleaving of lookups and writes.
\<close>

theorem C10_roster_invariant:
  "(registration_save now s d = Inr (d', s') \<longrightarrow> roster_complete d')
   \<and> (\<not> roster_complete d \<longrightarrow> (\<exists>e. registration_save now s d = Inl e))
   \<and> (reg_mode d \<in> set [''solo'', ''duo'', ''squad''] \<longrightarrow>
        (registration_pre_save d = Inr () \<longleftrightarrow> roster_complete d))
   \<and> (reachable L E s0 s1 \<and> (\<forall>r \<in> set (registrations s0). roster_complete r) \<longrightarrow>
        (\<forall>r \<in> set (registrations s1). roster_complete r))"
  using save_complete[of now s d d' s'] save_incomplete[of d now s] pre_save_complete[of d]
    reachable_complete[of L E s0 s1]
  by blast

theorem C10_roster_invariant_witness:
  "reachable example_library example_env empty_store taken_store
   \<and> registrations empty_store = []
   \<and> length (registrations taken_store) = 1
   \<and> roster_complete (hd (registrations taken_store))
   \<and> \<not> roster_complete (new_Registration oid2 (sanitize_registration short_duo_body))
   \<and> (\<exists>e. registration_save 2000 empty_store (new_Registration oid2 (sanitize_registration short_duo_body)) = Inl e)"
proof -
  have "reachable example_library example_env empty_store
          (snd (register_race 1000 oid1 empty_store empty_store duo_body))"
    by (rule reachable.registration) (rule reachable.start)
  then have r: "reachable example_library example_env empty_store taken_store"
    by (simp add: taken_store_def register_def)
  have e: "registrations empty_store = []" by (simp add: empty_store_def)
  have one: "length (registrations taken_store) = 1" by code_simp
  have bad: "\<not> roster_complete (new_Registration oid2 (sanitize_registration short_duo_body))"
    by code_simp
  note t = C10_roster_invariant[where L = example_library and E = example_env
      and ?s0.0 = empty_store and ?s1.0 = taken_store
      and d = "new_Registration oid2 (sanitize_registration short_duo_body)"
      and now = 2000 and s = empty_store]
  from t r e have all: "\<forall>r \<in> set (registrations taken_store). roster_complete r" by simp
  from one have "hd (registrations taken_store) \<in> set (registrations taken_store)"
    by (cases "registrations taken_store") simp_all
  with all have good: "roster_complete (hd (registrations taken_store))" by blast
  from t bad have "\<exists>e. registration_save 2000 empty_store
      (new_Registration oid2 (sanitize_registration short_duo_body)) = Inl e" by blast
  with r e one good bad show ?thesis by blast
qed

end
